theory Spec2Isabelle
  imports Complex_Main "HOL-Library.Multiset" "HOL-Library.Char_ord" "HOL-Library.List_Lexorder"
begin

section \<open>Values, errors and tables\<close>

text \<open>
  The violin block of d3blocks (\<^verbatim>\<open>d3blocks/violin/Violin.py\<close>) works on Python values, on
  dictionaries and on pandas tables. Python values are a datatype; \<open>PNum r\<close> is a number,
  integer or float, whose value is \<open>r\<close>, and \<open>PNaN\<close> is the float NaN (infinities are not
  modelled). Where the source computes with numpy scalars the arithmetic is a parameter.
  Every exception of the source is a value of \<open>error\<close>, and a function that can raise
  returns \<open>error + 'a\<close>.
\<close>

datatype pyval = PNone | PBool bool | PNum real | PNaN | PStr string | PList "pyval list"

datatype error = PyException | AttributeError | TypeError | KeyError | IndexError
  | ValueError | ReError

text \<open>
  A logger is passed as an optional argument (\<^verbatim>\<open>logger=None\<close>). The text of the messages is
  not modelled; what is modelled is that calling a method of \<^verbatim>\<open>None\<close> raises AttributeError.
\<close>

datatype logger = Logger

text \<open>Sequencing of two steps that can raise: the first error propagates.\<close>

definition bind_err :: "error + 'a \<Rightarrow> ('a \<Rightarrow> error + 'b) \<Rightarrow> error + 'b" where
  "bind_err m f = (case m of Inl e \<Rightarrow> Inl e | Inr v \<Rightarrow> f v)"

text \<open>\<^verbatim>\<open>logger.info(...)\<close> and \<^verbatim>\<open>logger.error(...)\<close>: both return \<^verbatim>\<open>None\<close> on a logger.\<close>

definition logger_call :: "logger option \<Rightarrow> error + unit" where
  "logger_call logger = (case logger of None \<Rightarrow> Inl AttributeError | Some _ \<Rightarrow> Inr ())"

text \<open>
  \<^verbatim>\<open>raise Exception(logger.error(...))\<close>: the argument is evaluated first, so without a
  logger the AttributeError of the call is what propagates.
\<close>

definition raise_logged :: "logger option \<Rightarrow> error + 'a" where
  "raise_logged logger = (case logger_call logger of Inl e \<Rightarrow> Inl e | Inr _ \<Rightarrow> Inl PyException)"

text \<open>
  A row of the record set, one field for each column \<^verbatim>\<open>x\<close>, \<^verbatim>\<open>y\<close>, \<^verbatim>\<open>color\<close>, \<^verbatim>\<open>size\<close>,
  \<^verbatim>\<open>stroke\<close>, \<^verbatim>\<open>opacity\<close>, \<^verbatim>\<open>tooltip\<close>; a table is the list of its rows, each with its index label
  (\<^verbatim>\<open>df.loc[mask]\<close> keeps the labels, \<^verbatim>\<open>reset_index\<close> renumbers them).
\<close>

record row =
  row_x :: string
  row_y :: pyval
  row_color :: pyval
  row_size :: pyval
  row_stroke :: pyval
  row_opacity :: pyval
  row_tooltip :: pyval

type_synonym dataframe = "(nat \<times> row) list"

text \<open>\<^verbatim>\<open>Series.isna()\<close> on one cell.\<close>

fun isna :: "pyval \<Rightarrow> bool" where
  "isna PNone = True"
| "isna PNaN = True"
| "isna _ = False"

section \<open>Label extraction\<close>

datatype labels_in = LabelSeq "string list" | LabelFrame dataframe

text \<open>The position of the first occurrence of a value in a list.\<close>

fun index_of :: "'a list \<Rightarrow> 'a \<Rightarrow> nat" where
  "index_of [] v = 0"
| "index_of (u # us) v = (if u = v then 0 else Suc (index_of us v))"

text \<open>
  \<^verbatim>\<open>np.unique(labels, return_index=True)[1]\<close>: for each distinct value, in sorted order of the
  values, the index of its first occurrence.
\<close>

definition np_unique_index :: "'a::linorder list \<Rightarrow> nat list" where
  "np_unique_index labels = map (index_of labels) (sort (remdups labels))"

text \<open>
  \<^verbatim>\<open>set_labels(labels, logger=None)\<close>. \<open>pre_processing\<close> is the function of the package's
  \<^verbatim>\<open>utils\<close> module, taken as a parameter; it returns a sequence or \<^verbatim>\<open>None\<close>.
\<close>

definition set_labels ::
  "(string list \<Rightarrow> string list option) \<Rightarrow> logger option \<Rightarrow> labels_in \<Rightarrow> error + string list" where
  "set_labels pre_processing logger labels =
     (let labels1 = (case labels of LabelFrame df \<Rightarrow> map (\<lambda>r. row_x (snd r)) df | LabelSeq ls \<Rightarrow> ls) in
      case pre_processing labels1 of
        None \<Rightarrow> raise_logged logger
      | Some labels2 \<Rightarrow>
          if length labels2 < 1 then raise_logged logger
          else let indexes = np_unique_index labels2
               in Inr (map (\<lambda>index. labels2 ! index) (sort indexes)))"

record node =
  node_id :: nat
  node_label :: string

text \<open>
  A Python dictionary whose order matters is a list of pairs: assigning to a key that is
  present keeps its place, a new key goes to the end.
\<close>

fun dict_set :: "('k \<times> 'v) list \<Rightarrow> 'k \<Rightarrow> 'v \<Rightarrow> ('k \<times> 'v) list" where
  "dict_set [] k v = [(k, v)]"
| "dict_set ((k', v') # d) k v = (if k' = k then (k, v) # d else (k', v') # dict_set d k v)"

type_synonym node_properties = "(string \<times> node) list"

text \<open>The loop \<^verbatim>\<open>for i, label in enumerate(uilabel): dict_labels[label] = {...}\<close>.\<close>

fun node_loop :: "(nat \<times> string) list \<Rightarrow> node_properties \<Rightarrow> node_properties" where
  "node_loop [] dict_labels = dict_labels"
| "node_loop ((i, l) # rest) dict_labels =
     node_loop rest (dict_set dict_labels l \<lparr>node_id = i, node_label = l\<rparr>)"

text \<open>
  \<^verbatim>\<open>set_node_properties(labels, cmap, logger)\<close> calls \<^verbatim>\<open>set_labels(labels)\<close>, without its
  logger.
\<close>

definition set_node_properties ::
  "(string list \<Rightarrow> string list option) \<Rightarrow> logger option \<Rightarrow> labels_in \<Rightarrow> error + node_properties" where
  "set_node_properties pre_processing logger labels =
     (case set_labels pre_processing None labels of
        Inl e \<Rightarrow> Inl e
      | Inr uilabel \<Rightarrow> Inr (node_loop (enumerate 0 uilabel) []))"

text \<open>The specification's wording: the distinct values, in the order of their first occurrence.\<close>

fun first_occurrences :: "'a list \<Rightarrow> 'a list" where
  "first_occurrences [] = []"
| "first_occurrences (u # us) = u # filter (\<lambda>v. v \<noteq> u) (first_occurrences us)"


section \<open>Configuration\<close>

text \<open>
  A configuration is a Python dictionary from option names to values. It is an object:
  the functions below receive a reference to it and assign to its keys in place, so the
  dictionaries live in a heap indexed by addresses.
\<close>

type_synonym config = "string \<rightharpoonup> pyval"

type_synonym addr = nat

text \<open>\<^verbatim>\<open>kwargs.get(key, default)\<close>.\<close>

definition kwargs_get :: "config \<Rightarrow> string \<Rightarrow> pyval \<Rightarrow> pyval" where
  "kwargs_get kwargs k d = (case kwargs k of None \<Rightarrow> d | Some v \<Rightarrow> v)"

text \<open>
  \<^verbatim>\<open>set_config(config={}, **kwargs)\<close>. The default value of \<^verbatim>\<open>config\<close> is one dictionary,
  created when the function is defined, at address \<open>default_config\<close>; a call without a
  configuration works on that one. \<open>set_path\<close> is the function of the package's
  \<^verbatim>\<open>utils\<close> module, taken as a parameter. The result is the heap after the call and the
  reference returned.
\<close>

definition set_config ::
  "(pyval \<Rightarrow> pyval) \<Rightarrow> addr \<Rightarrow> (addr \<Rightarrow> config) \<Rightarrow> addr option \<Rightarrow> config
    \<Rightarrow> (addr \<Rightarrow> config) \<times> addr" where
  "set_config set_path default_config heap config kwargs =
     (let a = (case config of None \<Rightarrow> default_config | Some a \<Rightarrow> a);
          c = heap a;
          c = c(''chart'' \<mapsto> PStr ''violin'');
          c = c(''title'' \<mapsto> kwargs_get kwargs ''title'' (PStr ''Violin - D3blocks''));
          c = c(''filepath'' \<mapsto> set_path (kwargs_get kwargs ''filepath'' (PStr ''violin.html'')));
          c = c(''figsize'' \<mapsto> kwargs_get kwargs ''figsize'' (PList [PNone, PNone]));
          c = c(''showfig'' \<mapsto> kwargs_get kwargs ''showfig'' (PBool True));
          c = c(''overwrite'' \<mapsto> kwargs_get kwargs ''overwrite'' (PBool True));
          c = c(''bins'' \<mapsto> kwargs_get kwargs ''bins'' (PNum 20));
          c = c(''cmap'' \<mapsto> kwargs_get kwargs ''cmap'' (PStr ''inferno''));
          c = c(''ylim'' \<mapsto> kwargs_get kwargs ''ylim'' (PList [PNone, PNone]));
          c = c(''x_order'' \<mapsto> kwargs_get kwargs ''x_order'' PNone);
          c = c(''reset_properties'' \<mapsto> kwargs_get kwargs ''reset_properties'' (PBool True))
      in (heap(a := c), a))"

text \<open>The options the configuration builder knows.\<close>

definition recognized :: "string list" where
  "recognized = [''chart'', ''title'', ''filepath'', ''figsize'', ''showfig'', ''overwrite'',
     ''bins'', ''cmap'', ''ylim'', ''x_order'', ''reset_properties'']"

section \<open>Data preparation\<close>

text \<open>An optional argument of the data preparer: one value for all rows, or one per row.\<close>

datatype field = Scalar pyval | Array "pyval list"

fun is_array :: "field \<Rightarrow> bool" where
  "is_array (Array _) = True"
| "is_array (Scalar _) = False"

fun field_len :: "field \<Rightarrow> nat" where
  "field_len (Array vs) = length vs"
| "field_len (Scalar _) = 0"

text \<open>
  A column of \<^verbatim>\<open>pd.DataFrame({...})\<close> for \<open>n\<close> rows: a scalar is repeated, an array of
  another length is refused.
\<close>

definition broadcast :: "nat \<Rightarrow> field \<Rightarrow> error + pyval list" where
  "broadcast n f =
     (case f of
        Scalar v \<Rightarrow> Inr (replicate n v)
      | Array vs \<Rightarrow> if length vs = n then Inr vs else Inl ValueError)"

fun make_rows ::
  "string list \<Rightarrow> pyval list \<Rightarrow> pyval list \<Rightarrow> pyval list \<Rightarrow> pyval list \<Rightarrow> pyval list
    \<Rightarrow> pyval list \<Rightarrow> row list" where
  "make_rows (a # as) (b # bs) (c # cs) (d # ds) (e # es) (f # fs) (g # gs) =
     \<lparr>row_x = a, row_y = b, row_color = c, row_size = d, row_stroke = e, row_opacity = f,
       row_tooltip = g\<rparr>
       # make_rows as bs cs ds es fs gs"
| "make_rows _ _ _ _ _ _ _ = []"

definition reset_index :: "dataframe \<Rightarrow> dataframe" where
  "reset_index df = zip [0..<length df] (map snd df)"

definition DataFrame ::
  "string list \<Rightarrow> pyval list \<Rightarrow> field \<Rightarrow> field \<Rightarrow> field \<Rightarrow> field \<Rightarrow> field
    \<Rightarrow> error + dataframe" where
  "DataFrame xs ys color size' stroke opacity tooltip =
     (let n = length xs in
      bind_err (broadcast n color) (\<lambda>cs.
      bind_err (broadcast n size') (\<lambda>ds.
      bind_err (broadcast n stroke) (\<lambda>es.
      bind_err (broadcast n opacity) (\<lambda>fs.
      bind_err (broadcast n tooltip) (\<lambda>gs.
        (let rows = make_rows xs ys cs ds es fs gs in Inr (zip [0..<length rows] rows))))))))"

text \<open>Lines 103 to 107: rows without a \<^verbatim>\<open>y\<close> are removed, and the removal is logged.\<close>

definition drop_nan :: "logger option \<Rightarrow> dataframe \<Rightarrow> error + dataframe" where
  "drop_nan logger df =
     (let Irem = map (\<lambda>r. isna (row_y (snd r))) df in
      if (\<exists>b \<in> set Irem. b) then
        (case logger_call logger of
           Inl e \<Rightarrow> Inl e
         | Inr _ \<Rightarrow> Inr (filter (\<lambda>r. \<not> isna (row_y (snd r))) df))
      else Inr df)"

fun str_items :: "pyval list \<Rightarrow> string list option" where
  "str_items [] = Some []"
| "str_items (PStr s # vs) = (case str_items vs of None \<Rightarrow> None | Some ss \<Rightarrow> Some (s # ss))"
| "str_items (_ # vs) = None"

fun join_with :: "string \<Rightarrow> string list \<Rightarrow> string" where
  "join_with sep [] = []"
| "join_with sep [s] = s"
| "join_with sep (s # t # ss) = s @ sep @ join_with sep (t # ss)"

text \<open>
  \<^verbatim>\<open>sep.join(v)\<close>: the items of a list must be strings; a string is joined character by
  character.
\<close>

definition py_join :: "string \<Rightarrow> pyval \<Rightarrow> error + string" where
  "py_join sep v =
     (case v of
        PList vs \<Rightarrow> (case str_items vs of None \<Rightarrow> Inl TypeError | Some ss \<Rightarrow> Inr (join_with sep ss))
      | PStr s \<Rightarrow> Inr (join_with sep (map (\<lambda>c. [c]) s))
      | _ \<Rightarrow> Inl TypeError)"

text \<open>
  Lines 109 to 113. \<^verbatim>\<open>Series.str.contains(pat)\<close> compiles \<open>pat\<close> as a regular expression and
  searches it in each value; \<open>re_search pat\<close> is that search (the regular expression engine
  is a parameter), \<open>None\<close> when \<open>pat\<close> does not compile.
\<close>

definition filter_classes ::
  "(string \<Rightarrow> (string \<Rightarrow> bool) option) \<Rightarrow> logger option \<Rightarrow> config \<Rightarrow> dataframe
    \<Rightarrow> error + dataframe" where
  "filter_classes re_search logger config df =
     (case config ''x_order'' of
        None \<Rightarrow> Inl KeyError
      | Some x_order \<Rightarrow>
          if x_order = PNone then Inr df
          else
            (case py_join ''|'' x_order of
               Inl e \<Rightarrow> Inl e
             | Inr classes \<Rightarrow>
                 (case re_search classes of
                    None \<Rightarrow> Inl ReError
                  | Some contains \<Rightarrow>
                      (case logger_call logger of
                         Inl e \<Rightarrow> Inl e
                       | Inr _ \<Rightarrow> Inr (filter (\<lambda>r. contains (row_x (snd r))) df)))))"

text \<open>
  Lines 115 to 117. \<open>fromlist cmap values\<close> is the colour list of
  \<^verbatim>\<open>colourmap.fromlist(values, scheme='hex', cmap=cmap)[0]\<close>; assigning a column of another
  length than the table is refused.
\<close>

definition color_rows ::
  "(pyval \<Rightarrow> pyval list \<Rightarrow> pyval list) \<Rightarrow> config \<Rightarrow> field \<Rightarrow> dataframe \<Rightarrow> error + dataframe" where
  "color_rows fromlist config color df =
     (if color = Scalar PNone then
        (case config ''cmap'' of
           None \<Rightarrow> Inl KeyError
         | Some cmap \<Rightarrow>
             (let cols = fromlist cmap (map (\<lambda>r. row_y (snd r)) df) in
              if length cols = length df
              then Inr (map (\<lambda>(r, c). (fst r, (snd r)\<lparr>row_color := c\<rparr>)) (zip df cols))
              else Inl ValueError))
      else Inr df)"

text \<open>\<^verbatim>\<open>set_edge_properties(x, y, config, color, size, stroke, opacity, tooltip, logger)\<close>.\<close>

definition set_edge_properties ::
  "(string \<Rightarrow> (string \<Rightarrow> bool) option) \<Rightarrow> (pyval \<Rightarrow> pyval list \<Rightarrow> pyval list)
    \<Rightarrow> string list \<Rightarrow> pyval list \<Rightarrow> config \<Rightarrow> field \<Rightarrow> field \<Rightarrow> field \<Rightarrow> field \<Rightarrow> field
    \<Rightarrow> logger option \<Rightarrow> error + dataframe" where
  "set_edge_properties re_search fromlist xs ys config color size' stroke opacity tooltip logger =
     (if length xs \<noteq> length ys then raise_logged logger
      else if size' = Scalar PNone then raise_logged logger
      else if is_array size' \<and> field_len size' \<noteq> length xs then raise_logged logger
      else if stroke = Scalar PNone then raise_logged logger
      else if is_array stroke \<and> field_len stroke \<noteq> length xs then raise_logged logger
      else if opacity = Scalar PNone then raise_logged logger
      else if is_array opacity \<and> field_len opacity \<noteq> length xs then raise_logged logger
      else
        bind_err (DataFrame xs ys color size' stroke opacity tooltip) (\<lambda>df.
        bind_err (drop_nan logger df) (\<lambda>df.
        bind_err (filter_classes re_search logger config df) (\<lambda>df.
        bind_err (color_rows fromlist config color df) (\<lambda>df.
          (let df = reset_index df in
           bind_err (logger_call logger) (\<lambda>_. Inr df)))))))"

text \<open>
  A regular expression without metacharacters other than \<open>|\<close> is an alternation of literal
  strings: it is found in a value when one of the alternatives occurs in the value.
\<close>

fun is_prefix :: "string \<Rightarrow> string \<Rightarrow> bool" where
  "is_prefix [] s = True"
| "is_prefix (c # p) [] = False"
| "is_prefix (c # p) (d # s) = (c = d \<and> is_prefix p s)"

fun occurs_in :: "string \<Rightarrow> string \<Rightarrow> bool" where
  "occurs_in p [] = (p = [])"
| "occurs_in p (d # s) = (is_prefix p (d # s) \<or> occurs_in p s)"

text \<open>The alternatives of a pattern: its pieces between the bars.\<close>

fun split_bar :: "string \<Rightarrow> string list" where
  "split_bar [] = [[]]"
| "split_bar (c # s) =
     (if c = CHR ''|'' then [] # split_bar s
      else (case split_bar s of [] \<Rightarrow> [[c]] | piece # pieces \<Rightarrow> (c # piece) # pieces))"

definition literal_search :: "string \<Rightarrow> (string \<Rightarrow> bool) option" where
  "literal_search pat = Some (\<lambda>s. list_ex (\<lambda>alt. occurs_in alt s) (split_bar pat))"

text \<open>The \<^verbatim>\<open>x\<close> and \<^verbatim>\<open>y\<close> of the rows of a table, in their order.\<close>

definition xy_of :: "dataframe \<Rightarrow> (string \<times> pyval) list" where
  "xy_of df = map (\<lambda>r. (row_x (snd r), row_y (snd r))) df"

section \<open>Rendering\<close>

text \<open>
  The renderer assigns to the configuration it is given and to the table it is given, and
  writes a file. The world holds the dictionaries, the tables and the files; a step takes
  a world and returns its outcome with the world it leaves, also when it raises.
\<close>

record world =
  configs :: "addr \<Rightarrow> config"
  frames :: "addr \<Rightarrow> dataframe"
  files :: "string \<rightharpoonup> string"

type_synonym 'a prog = "world \<Rightarrow> (error + 'a) \<times> world"

definition andthen :: "'a prog \<Rightarrow> ('a \<Rightarrow> 'b prog) \<Rightarrow> 'b prog" where
  "andthen m f w = (case m w of (Inl e, w') \<Rightarrow> (Inl e, w') | (Inr v, w') \<Rightarrow> f v w')"

definition lift :: "error + 'a \<Rightarrow> 'a prog" where
  "lift r w = (r, w)"

text \<open>\<^verbatim>\<open>config[key]\<close> and \<^verbatim>\<open>config[key] = value\<close> on the dictionary at address \<open>c\<close>.\<close>

definition config_get :: "addr \<Rightarrow> string \<Rightarrow> pyval prog" where
  "config_get c k w = (case configs w c k of None \<Rightarrow> (Inl KeyError, w) | Some v \<Rightarrow> (Inr v, w))"

definition config_set :: "addr \<Rightarrow> string \<Rightarrow> pyval \<Rightarrow> unit prog" where
  "config_set c k v w = (Inr (), w\<lparr>configs := (configs w)(c := (configs w c)(k \<mapsto> v))\<rparr>)"

text \<open>\<^verbatim>\<open>len(v)\<close>, \<^verbatim>\<open>v[i]\<close> and \<^verbatim>\<open>v[i] = u\<close> for an index that is not negative.\<close>

definition py_len :: "pyval \<Rightarrow> error + nat" where
  "py_len v = (case v of PList vs \<Rightarrow> Inr (length vs) | PStr s \<Rightarrow> Inr (length s) | _ \<Rightarrow> Inl TypeError)"

definition py_index :: "pyval \<Rightarrow> nat \<Rightarrow> error + pyval" where
  "py_index v i =
     (case v of
        PList vs \<Rightarrow> if i < length vs then Inr (vs ! i) else Inl IndexError
      | PStr s \<Rightarrow> if i < length s then Inr (PStr [s ! i]) else Inl IndexError
      | _ \<Rightarrow> Inl TypeError)"

definition py_setitem :: "pyval \<Rightarrow> nat \<Rightarrow> pyval \<Rightarrow> error + pyval" where
  "py_setitem v i u =
     (case v of
        PList vs \<Rightarrow> if i < length vs then Inr (PList (vs[i := u])) else Inl IndexError
      | _ \<Rightarrow> Inl TypeError)"

fun py_truthy :: "pyval \<Rightarrow> bool" where
  "py_truthy PNone = False"
| "py_truthy (PBool b) = b"
| "py_truthy (PNum r) = (r \<noteq> 0)"
| "py_truthy PNaN = True"
| "py_truthy (PStr s) = (s \<noteq> [])"
| "py_truthy (PList vs) = (vs \<noteq> [])"

text \<open>
  The numbers of a column, missing values skipped as \<^verbatim>\<open>Series.max()\<close> and
  \<^verbatim>\<open>Series.min()\<close> skip them; \<open>None\<close> when a cell holds something else, on which the range
  computation of the renderer raises a TypeError.
\<close>

fun series_numbers :: "pyval list \<Rightarrow> real list option" where
  "series_numbers [] = Some []"
| "series_numbers (PNum r # vs) = (case series_numbers vs of None \<Rightarrow> None | Some rs \<Rightarrow> Some (r # rs))"
| "series_numbers (PNone # vs) = series_numbers vs"
| "series_numbers (PNaN # vs) = series_numbers vs"
| "series_numbers (_ # vs) = None"

text \<open>
  \<^verbatim>\<open>Series.max()\<close> and \<^verbatim>\<open>Series.min()\<close> give one of the numbers of the column, or NaN
  (\<open>None\<close>) when it has none.
\<close>

fun series_max :: "real list \<Rightarrow> real option" where
  "series_max [] = None"
| "series_max (r # rs) = Some (fold max rs r)"

fun series_min :: "real list \<Rightarrow> real option" where
  "series_min [] = None"
| "series_min (r # rs) = Some (fold min rs r)"

definition of_float :: "real option \<Rightarrow> pyval" where
  "of_float a = (case a of None \<Rightarrow> PNaN | Some r \<Rightarrow> PNum r)"

text \<open>
  The arithmetic of numpy scalars, a parameter: \<open>col_sub\<close> is the subtraction of two values
  of the column in its dtype (int64 wraps around, float64 rounds); \<open>float_mul\<close>,
  \<open>float_sub\<close> and \<open>float_add\<close> are the float64 operations with the float
  \<^verbatim>\<open>y_spacing\<close>, which round.
\<close>

record arithmetic =
  col_sub :: "pyval \<Rightarrow> pyval \<Rightarrow> pyval"
  float_mul :: "pyval \<Rightarrow> pyval \<Rightarrow> pyval"
  float_sub :: "pyval \<Rightarrow> pyval \<Rightarrow> pyval"
  float_add :: "pyval \<Rightarrow> pyval \<Rightarrow> pyval"

text \<open>The literal \<^verbatim>\<open>0.10\<close> of line 151.\<close>

definition spacing :: real where
  "spacing = 0.10"

text \<open>Lines 153 and 154, on the column \<^verbatim>\<open>y\<close>.\<close>

definition y_limits :: "arithmetic \<Rightarrow> pyval list \<Rightarrow> error + pyval" where
  "y_limits arith ys =
     (case series_numbers ys of
        None \<Rightarrow> Inl TypeError
      | Some rs \<Rightarrow>
          (let y_max = of_float (series_max rs);
               y_min = of_float (series_min rs);
               y_spacing = float_mul arith (col_sub arith y_max y_min) (PNum spacing)
           in Inr (PList [float_sub arith y_min y_spacing, float_add arith y_max y_spacing])))"

text \<open>Lines 152 to 154.\<close>

definition ylim_step :: "arithmetic \<Rightarrow> addr \<Rightarrow> addr \<Rightarrow> unit prog" where
  "ylim_step arith c a =
     andthen (config_get c ''ylim'') (\<lambda>ylim.
     andthen (if ylim = PList [PNone, PNone] then lift (Inr True)
              else andthen (lift (py_len ylim)) (\<lambda>n. lift (Inr (n = 0)))) (\<lambda>auto_limits.
       if auto_limits then
         (\<lambda>w. andthen (lift (y_limits arith (map (\<lambda>r. row_y (snd r)) (frames w a))))
                 (\<lambda>lim. config_set c ''ylim'' lim) w)
       else lift (Inr ())))"

text \<open>
  \<^verbatim>\<open>repr\<close> of a string, for printable ASCII characters, newline, carriage return and tab:
  single quotes, unless the string has a single quote and no double quote; the backslash
  and the quote in use are escaped.
\<close>

definition py_repr :: "string \<Rightarrow> string" where
  "py_repr s =
     (let q = (if CHR 0x27 \<in> set s \<and> CHR 0x22 \<notin> set s then CHR 0x22 else CHR 0x27)
      in [q] @ concat (map (\<lambda>c. if c = CHR 0x5C then [CHR 0x5C, CHR 0x5C]
                                   else if c = q then [CHR 0x5C, q]
                                   else if c = CHR 0x0A then [CHR 0x5C, CHR ''n'']
                                   else if c = CHR 0x0D then [CHR 0x5C, CHR ''r'']
                                   else if c = CHR 0x09 then [CHR 0x5C, CHR ''t'']
                                   else [c]) s) @ [q])"

text \<open>\<^verbatim>\<open>str\<close> of a list of strings.\<close>

definition py_str_list :: "string list \<Rightarrow> string" where
  "py_str_list ss = ''['' @ join_with '', '' (map py_repr ss) @ '']''"

text \<open>Lines 156 and 157.\<close>

definition x_order_step :: "addr \<Rightarrow> node_properties \<Rightarrow> unit prog" where
  "x_order_step c node_properties =
     andthen (config_get c ''x_order'') (\<lambda>x_order.
       if x_order = PNone
       then config_set c ''x_order'' (PStr (py_str_list (map fst node_properties)))
       else lift (Inr ()))"

text \<open>Lines 158 to 161: \<^verbatim>\<open>if config['figsize'][i] is None: config['figsize'][i] = v\<close>.\<close>

definition figsize_step :: "addr \<Rightarrow> nat \<Rightarrow> pyval \<Rightarrow> unit prog" where
  "figsize_step c i v =
     andthen (config_get c ''figsize'') (\<lambda>figsize.
     andthen (lift (py_index figsize i)) (\<lambda>item.
       if item = PNone
       then andthen (lift (py_setitem figsize i v)) (\<lambda>figsize'. config_set c ''figsize'' figsize')
       else lift (Inr ())))"

text \<open>The three event bindings of the template.\<close>

definition mouseover_snippet :: string where
  "mouseover_snippet = ''.on('' @ [CHR 0x22] @ ''mouseover'' @ [CHR 0x22] @ '', mouseover)''"

definition mousemove_snippet :: string where
  "mousemove_snippet = ''.on('' @ [CHR 0x22] @ ''mousemove'' @ [CHR 0x22] @ '', mousemove)''"

definition mouseleave_snippet :: string where
  "mouseleave_snippet = ''.on('' @ [CHR 0x22] @ ''mouseleave'' @ [CHR 0x22] @ '', mouseleave)''"

text \<open>Lines 163 to 171.\<close>

definition tooltip_step :: "addr \<Rightarrow> addr \<Rightarrow> unit prog" where
  "tooltip_step c a w =
     (let tooltips = map (\<lambda>r. row_tooltip (snd r)) (frames w a) in
      if list_all (\<lambda>t. t = PStr []) tooltips \<or> list_all isna tooltips then
        andthen (config_set c ''mouseover'' (PStr []))
          (\<lambda>_. andthen (config_set c ''mousemove'' (PStr []))
          (\<lambda>_. config_set c ''mouseleave'' (PStr []))) w
      else
        andthen (config_set c ''mouseover'' (PStr mouseover_snippet))
          (\<lambda>_. andthen (config_set c ''mousemove'' (PStr mousemove_snippet))
          (\<lambda>_. config_set c ''mouseleave'' (PStr mouseleave_snippet))) w)"

text \<open>
  \<^verbatim>\<open>get_data_ready_for_d3(df)\<close> on the table at address \<open>a\<close>: the assignment
  \<^verbatim>\<open>df['y'] = df['y'].astype(str)\<close> replaces the column of the table it was given, then the
  table is serialised. \<open>to_str\<close> is \<^verbatim>\<open>str\<close> on one cell (how pandas prints a number is not
  modelled) and \<open>to_json\<close> is \<^verbatim>\<open>DataFrame.to_json(orient='records')\<close>; both are parameters.
\<close>

definition astype_str :: "(pyval \<Rightarrow> string) \<Rightarrow> dataframe \<Rightarrow> dataframe" where
  "astype_str to_str df = map (\<lambda>r. (fst r, (snd r)\<lparr>row_y := PStr (to_str (row_y (snd r)))\<rparr>)) df"

definition get_data_ready_for_d3 ::
  "(pyval \<Rightarrow> string) \<Rightarrow> (row list \<Rightarrow> string) \<Rightarrow> addr \<Rightarrow> string prog" where
  "get_data_ready_for_d3 to_str to_json a w =
     (let df = astype_str to_str (frames w a);
          w' = w\<lparr>frames := (frames w)(a := df)\<rparr>
      in (Inr (to_json (map snd df)), w'))"

text \<open>The substitutions of the template, in the order in which \<^verbatim>\<open>write_html\<close> builds them.\<close>

definition content :: "string \<Rightarrow> config \<Rightarrow> error + (string \<times> pyval) list" where
  "content X config =
     (let get = (\<lambda>k. case config k of None \<Rightarrow> Inl KeyError | Some v \<Rightarrow> Inr v) in
      bind_err (get ''title'') (\<lambda>title.
      bind_err (bind_err (get ''figsize'') (\<lambda>v. py_index v 0)) (\<lambda>width.
      bind_err (bind_err (get ''figsize'') (\<lambda>v. py_index v 1)) (\<lambda>height.
      bind_err (bind_err (get ''ylim'') (\<lambda>v. py_index v 0)) (\<lambda>min_y.
      bind_err (bind_err (get ''ylim'') (\<lambda>v. py_index v 1)) (\<lambda>max_y.
      bind_err (get ''x_order'') (\<lambda>x_order.
      bind_err (get ''bins'') (\<lambda>bins.
      bind_err (bind_err (get ''figsize'') (\<lambda>v. py_index v 0)) (\<lambda>width_fig.
      bind_err (bind_err (get ''figsize'') (\<lambda>v. py_index v 1)) (\<lambda>height_fig.
      bind_err (get ''mouseover'') (\<lambda>mouseover.
      bind_err (get ''mousemove'') (\<lambda>mousemove.
      bind_err (get ''mouseleave'') (\<lambda>mouseleave.
        Inr [(''json_data'', PStr X), (''TITLE'', title), (''WIDTH'', width),
             (''HEIGHT'', height), (''MIN_Y'', min_y), (''MAX_Y'', max_y),
             (''X_ORDER'', x_order), (''BINS'', bins), (''WIDTH_FIG'', width_fig),
             (''HEIGHT_FIG'', height_fig), (''MOUSEOVER'', mouseover),
             (''MOUSEMOVE'', mousemove), (''MOUSELEAVE'', mouseleave)])))))))))))))"

text \<open>
  \<^verbatim>\<open>write_html(X, config, logger)\<close>. \<open>render\<close> is the template engine with the template
  \<^verbatim>\<open>violin.html.j2\<close>, a parameter. The file system takes every write; a file that is there
  is removed first when \<^verbatim>\<open>overwrite\<close> is true, and written over in any case.
\<close>

definition write_html ::
  "((string \<times> pyval) list \<Rightarrow> string) \<Rightarrow> string \<Rightarrow> addr \<Rightarrow> logger option \<Rightarrow> unit prog" where
  "write_html render X c logger w =
     (case content X (configs w c) of
        Inl e \<Rightarrow> (Inl e, w)
      | Inr subst \<Rightarrow>
          (case configs w c ''filepath'' of
             None \<Rightarrow> (Inl KeyError, w)
           | Some (PStr index_file) \<Rightarrow>
               (case configs w c ''overwrite'' of
                  None \<Rightarrow> (Inl KeyError, w)
                | Some overwrite \<Rightarrow>
                    (let fs = (if py_truthy overwrite \<and> files w index_file \<noteq> None
                               then (files w)(index_file := None) else files w)
                     in (Inr (), w\<lparr>files := fs(index_file \<mapsto> render subst)\<rparr>)))
           | Some _ \<Rightarrow> (Inl TypeError, w)))"

text \<open>
  \<^verbatim>\<open>show(df, config=..., node_properties=..., logger=...)\<close>. The two calls of
  \<^verbatim>\<open>convert_dataframe_dict\<close> (of the package's \<^verbatim>\<open>utils\<close> module) are the parameters
  \<open>to_dict\<close>, which gives the label properties as a dictionary, and \<open>to_frame\<close>, which gives
  the address of the table to work on and may allocate it. A call without \<^verbatim>\<open>config\<close>
  has \<^verbatim>\<open>None\<close> for it. The result is the reference to the configuration.
\<close>

definition "show" ::
  "arithmetic \<Rightarrow> ('n \<Rightarrow> node_properties) \<Rightarrow> ('d \<Rightarrow> world \<Rightarrow> addr \<times> world) \<Rightarrow> (pyval \<Rightarrow> string)
    \<Rightarrow> (row list \<Rightarrow> string) \<Rightarrow> ((string \<times> pyval) list \<Rightarrow> string)
    \<Rightarrow> 'd \<Rightarrow> addr option \<Rightarrow> 'n \<Rightarrow> logger option \<Rightarrow> addr prog" where
  "show arith to_dict to_frame to_str to_json render df config node_properties logger w =
     (let node_properties = to_dict node_properties;
          (a, w) = to_frame df w
      in case config of
           None \<Rightarrow> (Inl TypeError, w)
         | Some c \<Rightarrow>
             andthen (ylim_step arith c a) (\<lambda>_.
             andthen (x_order_step c node_properties) (\<lambda>_.
             andthen (figsize_step c 0 (PNum (real (length node_properties * 95)))) (\<lambda>_.
             andthen (figsize_step c 1 (PNum 400)) (\<lambda>_.
             andthen (tooltip_step c a) (\<lambda>_.
             andthen (get_data_ready_for_d3 to_str to_json a) (\<lambda>X.
             andthen (write_html render X c logger) (\<lambda>_.
             lift (Inr c)))))))) w)"

section \<open>Auxiliary definitions\<close>

text \<open>A step that assigns to one key of the configuration, or leaves the world as it is.\<close>

definition sets_key :: "addr \<Rightarrow> string \<Rightarrow> world \<Rightarrow> world \<Rightarrow> bool" where
  "sets_key c k w w' \<longleftrightarrow>
     frames w' = frames w \<and> files w' = files w
     \<and> configs w' = (configs w)(c := (configs w c)(k := configs w' c k))"

text \<open>
  A run of the renderer on the default configuration, two label properties and a table of
  two rows with the \<^verbatim>\<open>y\<close> values 0 and 10.
\<close>

definition example_config :: config where
  "example_config = [''chart'' \<mapsto> PStr ''violin'', ''title'' \<mapsto> PStr ''Violin - D3blocks'',
     ''filepath'' \<mapsto> PStr ''violin.html'', ''figsize'' \<mapsto> PList [PNone, PNone],
     ''showfig'' \<mapsto> PBool True, ''overwrite'' \<mapsto> PBool True, ''bins'' \<mapsto> PNum 20,
     ''cmap'' \<mapsto> PStr ''inferno'', ''ylim'' \<mapsto> PList [PNone, PNone], ''x_order'' \<mapsto> PNone,
     ''reset_properties'' \<mapsto> PBool True]"

definition example_row :: "string \<Rightarrow> pyval \<Rightarrow> pyval \<Rightarrow> row" where
  "example_row a b t = \<lparr>row_x = a, row_y = b, row_color = PStr ''#000004'', row_size = PNum 5,
     row_stroke = PStr ''#ffffff'', row_opacity = PNum 0.8, row_tooltip = t\<rparr>"

definition example_world :: "dataframe \<Rightarrow> world" where
  "example_world df = \<lparr>configs = (\<lambda>_. example_config), frames = (\<lambda>_. df), files = Map.empty\<rparr>"

text \<open>
  Arithmetic without wrap-around and rounding: what numpy computes where the exact result
  is a value of the result type, as it is for the numbers 0, 10, 1, - 1 and 11 of the run.
\<close>

definition exact :: "(real \<Rightarrow> real \<Rightarrow> real) \<Rightarrow> pyval \<Rightarrow> pyval \<Rightarrow> pyval" where
  "exact f u v = (case u of PNum a \<Rightarrow> (case v of PNum b \<Rightarrow> PNum (f a b) | _ \<Rightarrow> PNaN) | _ \<Rightarrow> PNaN)"

definition exact_arith :: arithmetic where
  "exact_arith = \<lparr>col_sub = exact (\<lambda>a b. a - b), float_mul = exact (\<lambda>a b. a * b),
     float_sub = exact (\<lambda>a b. a - b), float_add = exact (\<lambda>a b. a + b)\<rparr>"

definition example_str :: "pyval \<Rightarrow> string" where
  "example_str v = (if v = PNum 0 then ''0.0'' else ''10.0'')"

definition example_nodes :: node_properties where
  "example_nodes = [(''a'', \<lparr>node_id = 0, node_label = ''a''\<rparr>),
     (''b'', \<lparr>node_id = 1, node_label = ''b''\<rparr>)]"

definition example_frame :: "pyval \<Rightarrow> pyval \<Rightarrow> dataframe" where
  "example_frame t u = [(0, example_row ''a'' (PNum 0) t), (1, example_row ''b'' (PNum 10) u)]"

section \<open>Label extraction: properties\<close>

lemma nth_index_of: "v \<in> set us \<Longrightarrow> us ! index_of us v = v"
  by (induction us) auto

lemma set_first_occurrences: "set (first_occurrences us) = set us"
  by (induction us) auto

lemma distinct_first_occurrences: "distinct (first_occurrences us)"
  by (induction us) (auto simp: set_first_occurrences)

lemma index_of_Cons_other:
  "u \<notin> set vs \<Longrightarrow> map (index_of (u # us)) vs = map Suc (map (index_of us) vs)"
  by (induction vs) auto

text \<open>The first occurrences, in their order, have increasing positions.\<close>

lemma sorted_index_first_occurrences:
  "sorted (map (index_of us) (first_occurrences us))"
proof (induction us)
  case Nil
  then show ?case by simp
next
  case (Cons u us)
  have eq: "map (index_of (u # us)) (filter (\<lambda>v. v \<noteq> u) (first_occurrences us))
      = map Suc (map (index_of us) (filter (\<lambda>v. v \<noteq> u) (first_occurrences us)))"
    by (simp add: index_of_Cons_other)
  have "sorted (map (index_of us) (filter (\<lambda>v. v \<noteq> u) (first_occurrences us)))"
    using Cons.IH by (simp add: sorted_map sorted_wrt_filter)
  then have "sorted (map Suc (map (index_of us) (filter (\<lambda>v. v \<noteq> u) (first_occurrences us))))"
    by (simp add: sorted_map sorted_wrt_map)
  then have "sorted (map (index_of (u # us)) (filter (\<lambda>v. v \<noteq> u) (first_occurrences us)))"
    by (simp only: eq)
  moreover have "index_of (u # us) u = 0" by simp
  ultimately show ?case by (simp del: index_of.simps)
qed

lemma mset_first_occurrences: "mset (first_occurrences us) = mset (remdups us)"
  by (simp add: set_eq_iff_mset_eq_distinct [symmetric] set_first_occurrences
      distinct_first_occurrences)

text \<open>Sorting the indices of \<^verbatim>\<open>np.unique\<close> undoes the sorting of the values.\<close>

lemma sort_np_unique_index:
  "sort (np_unique_index us) = map (index_of us) (first_occurrences us)"
proof -
  have "mset (map (index_of us) (first_occurrences us)) = mset (np_unique_index us)"
    by (simp add: np_unique_index_def mset_first_occurrences)
  then show ?thesis
    using sorted_index_first_occurrences by (metis properties_for_sort)
qed

lemma map_nth_index_of: "set vs \<subseteq> set us \<Longrightarrow> map (\<lambda>i. us ! i) (map (index_of us) vs) = vs"
  by (induction vs) (auto simp: nth_index_of)

lemma map_nth_first_occurrences:
  "map (\<lambda>i. us ! i) (map (index_of us) (first_occurrences us)) = first_occurrences us"
  by (rule map_nth_index_of) (simp add: set_first_occurrences)

lemma unique_labels_first_occurrences:
  "map (\<lambda>index. us ! index) (sort (np_unique_index us)) = first_occurrences us"
  by (simp only: sort_np_unique_index map_nth_first_occurrences)

lemma dict_set_fresh: "k \<notin> fst ` set d \<Longrightarrow> dict_set d k v = d @ [(k, v)]"
  by (induction d) auto

text \<open>On distinct labels every assignment of the loop adds a key at the end.\<close>

lemma node_loop_distinct:
  "distinct ls \<Longrightarrow> set ls \<inter> fst ` set d = {} \<Longrightarrow>
   node_loop (enumerate n ls) d
     = d @ map (\<lambda>(i, l). (l, \<lparr>node_id = i, node_label = l\<rparr>)) (enumerate n ls)"
proof (induction ls arbitrary: n d)
  case Nil
  then show ?case by simp
next
  case (Cons l ls)
  have fresh: "l \<notin> fst ` set d" using Cons.prems by auto
  have "set ls \<inter> fst ` set (d @ [(l, \<lparr>node_id = n, node_label = l\<rparr>)]) = {}"
    using Cons.prems by auto
  then show ?case using Cons fresh by (simp add: dict_set_fresh)
qed

lemma set_labels_nonempty:
  assumes "pre_processing (case labels of LabelFrame df \<Rightarrow> map (\<lambda>r. row_x (snd r)) df
                                         | LabelSeq ls \<Rightarrow> ls) = Some ls"
    and "ls \<noteq> []"
  shows "set_labels pre_processing logger labels = Inr (first_occurrences ls)"
proof -
  have "\<not> length ls < 1" using assms(2) by (cases ls) auto
  then show ?thesis
    using assms(1) by (simp add: set_labels_def unique_labels_first_occurrences)
qed

text \<open>
  C3. When preprocessing gives a sequence that is not empty, \<open>set_labels\<close> returns its
  distinct values in the order of their first occurrence, and \<open>set_node_properties\<close> maps
  each of them, in that order, to the record of its label and its position, the positions
  being 0, 1, 2 and so on.
\<close>

theorem set_labels_first_occurrence_order:
  assumes "pre_processing (case labels of LabelFrame df \<Rightarrow> map (\<lambda>r. row_x (snd r)) df
                                         | LabelSeq ls \<Rightarrow> ls) = Some ls"
    and "ls \<noteq> []"
  shows "set_labels pre_processing logger labels = Inr (first_occurrences ls)
    \<and> set_node_properties pre_processing logger labels
        = Inr (map (\<lambda>(i, l). (l, \<lparr>node_id = i, node_label = l\<rparr>))
                 (enumerate 0 (first_occurrences ls)))
    \<and> map (\<lambda>p. node_id (snd p))
        (map (\<lambda>(i, l). (l, \<lparr>node_id = i, node_label = l\<rparr>)) (enumerate 0 (first_occurrences ls)))
        = [0..<length (first_occurrences ls)]"
proof -
  have labels: "set_labels pre_processing lg labels = Inr (first_occurrences ls)" for lg
    using assms by (rule set_labels_nonempty)
  have loop: "node_loop (enumerate 0 (first_occurrences ls)) []
      = map (\<lambda>(i, l). (l, \<lparr>node_id = i, node_label = l\<rparr>)) (enumerate 0 (first_occurrences ls))"
    using node_loop_distinct [of "first_occurrences ls" "[]" 0]
    by (simp add: distinct_first_occurrences)
  have "(\<lambda>p. node_id (snd p)) \<circ> (\<lambda>(i, l). (l, \<lparr>node_id = i, node_label = l\<rparr>))
      = (fst :: nat \<times> string \<Rightarrow> nat)"
    by (auto simp: fun_eq_iff)
  then have ids: "map (\<lambda>p. node_id (snd p))
        (map (\<lambda>(i, l). (l, \<lparr>node_id = i, node_label = l\<rparr>)) (enumerate 0 (first_occurrences ls)))
        = [0..<length (first_occurrences ls)]"
    by simp
  show ?thesis
    using labels loop ids by (simp add: set_node_properties_def del: map_map)
qed

theorem set_labels_first_occurrence_order_witness:
  "set_labels Some None (LabelSeq [''b'', ''a'', ''b'', ''c'', ''a'']) = Inr [''b'', ''a'', ''c'']
   \<and> set_node_properties Some None (LabelSeq [''b'', ''a'', ''b'', ''c'', ''a''])
       = Inr [(''b'', \<lparr>node_id = 0, node_label = ''b''\<rparr>),
              (''a'', \<lparr>node_id = 1, node_label = ''a''\<rparr>),
              (''c'', \<lparr>node_id = 2, node_label = ''c''\<rparr>)]"
  using set_labels_first_occurrence_order
    [of Some "LabelSeq [''b'', ''a'', ''b'', ''c'', ''a'']" "[''b'', ''a'', ''b'', ''c'', ''a'']" None]
  by (simp add: enumerate_eq_zip upt_rec)

text \<open>
  With a logger, a preprocessed result that is empty or \<^verbatim>\<open>None\<close> raises the exception of
  line 53.
\<close>

lemma set_labels_raises_with_logger:
  assumes "pre_processing (case labels of LabelFrame df \<Rightarrow> map (\<lambda>r. row_x (snd r)) df
                                         | LabelSeq ls \<Rightarrow> ls) \<in> {None, Some []}"
  shows "set_labels pre_processing (Some lg) labels = Inl PyException"
  using assms by (auto simp: set_labels_def raise_logged_def logger_call_def)

text \<open>
  C7. Without a logger (the default, and what \<open>set_node_properties\<close> passes) an empty label
  sequence does not raise the exception of line 53: evaluating its argument,
  \<^verbatim>\<open>logger.error(...)\<close>, raises AttributeError first.
\<close>

theorem set_labels_empty_without_logger:
  "set_labels Some None (LabelSeq []) = Inl AttributeError
   \<and> set_node_properties Some (Some Logger) (LabelSeq []) = Inl AttributeError"
  by (simp add: set_labels_def set_node_properties_def raise_logged_def logger_call_def)

section \<open>Data preparation: properties\<close>



lemma bind_err_Inr: "bind_err m f = Inr v \<Longrightarrow> \<exists>u. m = Inr u \<and> f u = Inr v"
  by (cases m) (auto simp: bind_err_def)

lemma broadcast_length: "broadcast n f = Inr vs \<Longrightarrow> length vs = n"
  by (cases f) (auto simp: broadcast_def split: if_splits)

lemma make_rows_xy:
  "length ys = length xs \<Longrightarrow> length cs = length xs \<Longrightarrow> length ds = length xs \<Longrightarrow>
   length es = length xs \<Longrightarrow> length fs = length xs \<Longrightarrow> length gs = length xs \<Longrightarrow>
   map (\<lambda>r. (row_x r, row_y r)) (make_rows xs ys cs ds es fs gs) = zip xs ys"
proof (induction xs arbitrary: ys cs ds es fs gs)
  case Nil
  then show ?case by simp
next
  case (Cons a xs)
  then obtain b ys' c cs' d ds' e es' f fs' g gs' where
    "ys = b # ys'" "cs = c # cs'" "ds = d # ds'" "es = e # es'" "fs = f # fs'" "gs = g # gs'"
    by (metis length_Suc_conv)
  then show ?case using Cons by simp
qed

lemma xy_of_zip_index: "length is = length rows \<Longrightarrow>
   xy_of (zip is rows) = map (\<lambda>r. (row_x r, row_y r)) rows"
  by (induction "is" rows rule: list_induct2) (auto simp: xy_of_def)

lemma DataFrame_xy:
  assumes "DataFrame xs ys color size' stroke opacity tooltip = Inr df"
    and "length xs = length ys"
  shows "xy_of df = zip xs ys"
proof -
  from assms(1) obtain cs ds es fs gs where
    b: "broadcast (length xs) color = Inr cs" "broadcast (length xs) size' = Inr ds"
       "broadcast (length xs) stroke = Inr es" "broadcast (length xs) opacity = Inr fs"
       "broadcast (length xs) tooltip = Inr gs"
    and df: "df = zip [0..<length (make_rows xs ys cs ds es fs gs)] (make_rows xs ys cs ds es fs gs)"
    unfolding DataFrame_def Let_def
    by (auto dest!: bind_err_Inr)
  have "map (\<lambda>r. (row_x r, row_y r)) (make_rows xs ys cs ds es fs gs) = zip xs ys"
    using b assms(2) by (intro make_rows_xy) (auto dest: broadcast_length)
  then show ?thesis using df by (simp add: xy_of_zip_index)
qed

lemma drop_nan_Inr:
  "drop_nan logger df = Inr df' \<Longrightarrow> df' = filter (\<lambda>r. \<not> isna (row_y (snd r))) df"
  by (auto simp: drop_nan_def Let_def filter_id_conv split: if_splits sum.splits)

lemma xy_of_filter:
  "xy_of (filter (\<lambda>r. P (row_x (snd r)) (row_y (snd r))) df) = filter (\<lambda>p. P (fst p) (snd p)) (xy_of df)"
  by (induction df) (auto simp: xy_of_def)

lemma color_rows_xy: "color_rows fromlist config color df = Inr df' \<Longrightarrow> xy_of df' = xy_of df"
proof -
  have "length cols = length df \<Longrightarrow>
     xy_of (map (\<lambda>(r, c). (fst r, (snd r)\<lparr>row_color := c\<rparr>)) (zip df cols)) = xy_of df" for cols
    by (induction df cols rule: list_induct2') (auto simp: xy_of_def)
  then show "color_rows fromlist config color df = Inr df' \<Longrightarrow> xy_of df' = xy_of df"
    by (auto simp: color_rows_def Let_def split: if_splits option.splits)
qed

lemma reset_index_xy: "xy_of (reset_index df) = xy_of df"
  by (simp add: reset_index_def xy_of_zip_index) (simp add: xy_of_def)

lemma reset_index_fst: "map fst (reset_index df) = [0..<length (reset_index df)]"
  by (simp add: reset_index_def)


text \<open>What a successful call went through, stage by stage.\<close>

lemma filter_classes_Inr:
  assumes "filter_classes re_search logger config df = Inr df'"
  shows "\<exists>keep. df' = filter (\<lambda>r. keep (row_x (snd r))) df"
proof (cases "config ''x_order'' = Some PNone")
  case True
  then have "df' = df"
    using assms by (simp add: filter_classes_def)
  then show ?thesis by (intro exI [of _ "\<lambda>_. True"]) simp
next
  case False
  then obtain m where "df' = filter (\<lambda>r. m (row_x (snd r))) df"
    using assms by (auto simp: filter_classes_def split: option.splits sum.splits if_splits)
  then show ?thesis by blast
qed

lemma filter_classes_None:
  "config ''x_order'' = Some PNone \<Longrightarrow> filter_classes re_search logger config df = Inr df"
  by (simp add: filter_classes_def)

lemma set_edge_properties_Inr:
  assumes "set_edge_properties re_search fromlist xs ys config color size' stroke opacity tooltip
             logger = Inr df"
  shows "length xs = length ys \<and>
    (\<exists>df0 df1 df2 df3.
       DataFrame xs ys color size' stroke opacity tooltip = Inr df0
     \<and> drop_nan logger df0 = Inr df1
     \<and> filter_classes re_search logger config df1 = Inr df2
     \<and> color_rows fromlist config color df2 = Inr df3
     \<and> df = reset_index df3)"
proof -
  have no_raise: "raise_logged logger \<noteq> Inr df"
    by (simp add: raise_logged_def split: sum.splits)
  have len: "length xs = length ys"
    using assms no_raise by (auto simp: set_edge_properties_def split: if_splits)
  have "bind_err (DataFrame xs ys color size' stroke opacity tooltip) (\<lambda>df.
        bind_err (drop_nan logger df) (\<lambda>df.
        bind_err (filter_classes re_search logger config df) (\<lambda>df.
        bind_err (color_rows fromlist config color df) (\<lambda>df.
          (let df = reset_index df in
           bind_err (logger_call logger) (\<lambda>_. Inr df)))))) = Inr df"
    using assms no_raise unfolding set_edge_properties_def by (simp split: if_splits)
  then obtain df0 where s0: "DataFrame xs ys color size' stroke opacity tooltip = Inr df0"
    and "bind_err (drop_nan logger df0) (\<lambda>df.
        bind_err (filter_classes re_search logger config df) (\<lambda>df.
        bind_err (color_rows fromlist config color df) (\<lambda>df.
          (let df = reset_index df in
           bind_err (logger_call logger) (\<lambda>_. Inr df))))) = Inr df"
    by (blast dest: bind_err_Inr)
  then obtain df1 where s1: "drop_nan logger df0 = Inr df1"
    and "bind_err (filter_classes re_search logger config df1) (\<lambda>df.
        bind_err (color_rows fromlist config color df) (\<lambda>df.
          (let df = reset_index df in
           bind_err (logger_call logger) (\<lambda>_. Inr df)))) = Inr df"
    by (blast dest: bind_err_Inr)
  then obtain df2 where s2: "filter_classes re_search logger config df1 = Inr df2"
    and "bind_err (color_rows fromlist config color df2) (\<lambda>df.
          (let df = reset_index df in
           bind_err (logger_call logger) (\<lambda>_. Inr df))) = Inr df"
    by (blast dest: bind_err_Inr)
  then obtain df3 where s3: "color_rows fromlist config color df2 = Inr df3"
    and "(let df = reset_index df3 in bind_err (logger_call logger) (\<lambda>_. Inr df)) = Inr df"
    by (blast dest: bind_err_Inr)
  then have "df = reset_index df3"
    by (auto dest!: bind_err_Inr simp: Let_def)
  then show ?thesis using len s0 s1 s2 s3 by blast
qed

text \<open>
  C4. Whatever the arguments, a table that \<open>set_edge_properties\<close> returns has no row with a
  missing \<^verbatim>\<open>y\<close>, and its index is 0, 1, 2 and so on; without an \<^verbatim>\<open>x_order\<close> its rows are the
  input pairs whose \<^verbatim>\<open>y\<close> is present, in their order. The witness is the call with
  \<^verbatim>\<open>x=["a","b"]\<close> and \<^verbatim>\<open>y=[1, None]\<close>, which returns one row.
\<close>

theorem no_missing_y:
  assumes "set_edge_properties re_search fromlist xs ys config color size' stroke opacity tooltip
             logger = Inr df"
  shows "(\<forall>r \<in> set df. \<not> isna (row_y (snd r)))
    \<and> map fst df = [0..<length df]
    \<and> (config ''x_order'' = Some PNone \<longrightarrow> xy_of df = filter (\<lambda>p. \<not> isna (snd p)) (zip xs ys))"
proof -
  from set_edge_properties_Inr [OF assms] obtain df0 df1 df2 df3 where
    len: "length xs = length ys"
    and s0: "DataFrame xs ys color size' stroke opacity tooltip = Inr df0"
    and s1: "drop_nan logger df0 = Inr df1"
    and s2: "filter_classes re_search logger config df1 = Inr df2"
    and s3: "color_rows fromlist config color df2 = Inr df3"
    and df: "df = reset_index df3"
    by blast
  have xy1: "xy_of df1 = filter (\<lambda>p. \<not> isna (snd p)) (zip xs ys)"
    using drop_nan_Inr [OF s1] DataFrame_xy [OF s0 len]
      xy_of_filter [of "\<lambda>a b. \<not> isna b" df0] by simp
  from filter_classes_Inr [OF s2] obtain keep where
    df2: "df2 = filter (\<lambda>r. keep (row_x (snd r))) df1" by blast
  have xy2: "xy_of df2 = filter (\<lambda>p. keep (fst p)) (xy_of df1)"
    using df2 xy_of_filter [of "\<lambda>a b. keep a" df1] by simp
  have xy: "xy_of df = filter (\<lambda>p. keep (fst p)) (filter (\<lambda>p. \<not> isna (snd p)) (zip xs ys))"
    using df color_rows_xy [OF s3] xy2 xy1 by (simp add: reset_index_xy)
  have "\<forall>p \<in> set (xy_of df). \<not> isna (snd p)"
    unfolding xy by simp
  then have 1: "\<forall>r \<in> set df. \<not> isna (row_y (snd r))"
    by (auto simp: xy_of_def)
  have 2: "map fst df = [0..<length df]"
    using df reset_index_fst by simp
  have 3: "xy_of df = filter (\<lambda>p. \<not> isna (snd p)) (zip xs ys)" if "config ''x_order'' = Some PNone"
  proof -
    have "df2 = df1" using s2 filter_classes_None [of config, OF that] by simp
    then show ?thesis using df color_rows_xy [OF s3] xy1 by (simp add: reset_index_xy)
  qed
  show ?thesis using 1 2 3 by blast
qed


theorem no_missing_y_witness:
  "set_edge_properties literal_search (\<lambda>cmap values. map (\<lambda>_. PStr ''#000004'') values)
      [''a'', ''b''] [PNum 1, PNone] [''x_order'' \<mapsto> PNone, ''cmap'' \<mapsto> PStr ''inferno'']
      (Scalar PNone) (Scalar (PNum 5)) (Scalar (PStr ''#ffffff'')) (Scalar (PNum 0.8))
      (Scalar (PStr [])) (Some Logger)
    = Inr [(0, \<lparr>row_x = ''a'', row_y = PNum 1, row_color = PStr ''#000004'', row_size = PNum 5,
                row_stroke = PStr ''#ffffff'', row_opacity = PNum 0.8, row_tooltip = PStr []\<rparr>)]
   \<and> xy_of [(0, \<lparr>row_x = ''a'', row_y = PNum 1, row_color = PStr ''#000004'', row_size = PNum 5,
                row_stroke = PStr ''#ffffff'', row_opacity = PNum 0.8, row_tooltip = PStr []\<rparr>)]
       = filter (\<lambda>p. \<not> isna (snd p)) (zip [''a'', ''b''] [PNum 1, PNone])"
proof -
  have run: "set_edge_properties literal_search (\<lambda>cmap values. map (\<lambda>_. PStr ''#000004'') values)
      [''a'', ''b''] [PNum 1, PNone] [''x_order'' \<mapsto> PNone, ''cmap'' \<mapsto> PStr ''inferno'']
      (Scalar PNone) (Scalar (PNum 5)) (Scalar (PStr ''#ffffff'')) (Scalar (PNum 0.8))
      (Scalar (PStr [])) (Some Logger)
    = Inr [(0, \<lparr>row_x = ''a'', row_y = PNum 1, row_color = PStr ''#000004'', row_size = PNum 5,
                row_stroke = PStr ''#ffffff'', row_opacity = PNum 0.8, row_tooltip = PStr []\<rparr>)]"
    by (simp add: set_edge_properties_def DataFrame_def broadcast_def bind_err_def drop_nan_def
        logger_call_def filter_classes_def color_rows_def reset_index_def numeral_2_eq_2)
  have "[''x_order'' \<mapsto> PNone, ''cmap'' \<mapsto> PStr ''inferno''] ''x_order'' = Some PNone"
    by simp
  then show ?thesis
    using run no_missing_y [OF run] by blast
qed

text \<open>With a logger, each failed check of lines 92 to 98 raises the exception.\<close>

lemma validation_raises_with_logger:
  assumes "length xs \<noteq> length ys
     \<or> size' = Scalar PNone \<or> (is_array size' \<and> field_len size' \<noteq> length xs)
     \<or> stroke = Scalar PNone \<or> (is_array stroke \<and> field_len stroke \<noteq> length xs)
     \<or> opacity = Scalar PNone \<or> (is_array opacity \<and> field_len opacity \<noteq> length xs)"
  shows "set_edge_properties re_search fromlist xs ys config color size' stroke opacity tooltip
           (Some lg) = Inl PyException"
proof -
  have "raise_logged (Some lg) = (Inl PyException :: error + dataframe)"
    by (simp add: raise_logged_def logger_call_def)
  then show ?thesis using assms unfolding set_edge_properties_def by auto
qed

text \<open>
  C2. Without a logger (the default) a failed check does not raise the exception of lines
  92 to 98: evaluating its argument, \<^verbatim>\<open>logger.error(...)\<close>, raises AttributeError first.
  Here \<^verbatim>\<open>x\<close> and \<^verbatim>\<open>y\<close> differ in length, and then \<^verbatim>\<open>size\<close> is a list of another length.
\<close>

theorem validation_without_logger:
  "set_edge_properties re_search fromlist [''a''] [] config color size' stroke opacity tooltip None
     = Inl AttributeError
   \<and> set_edge_properties re_search fromlist [''a''] [PNum 1] config color
       (Array [PNum 5, PNum 6]) stroke opacity tooltip None = Inl AttributeError"
  by (simp add: set_edge_properties_def raise_logged_def logger_call_def)


text \<open>\<open>occurs_in\<close> is the substring relation.\<close>

lemma is_prefix_iff: "is_prefix p s \<longleftrightarrow> (\<exists>v. s = p @ v)"
  by (induction p s rule: is_prefix.induct) auto

lemma occurs_in_iff: "occurs_in p s \<longleftrightarrow> (\<exists>u v. s = u @ p @ v)"
proof (induction s)
  case Nil
  then show ?case by auto
next
  case (Cons d s)
  have "(\<exists>u v. d # s = u @ p @ v) \<longleftrightarrow> (\<exists>v. d # s = p @ v) \<or> (\<exists>u v. s = u @ p @ v)"
  proof
    assume "\<exists>u v. d # s = u @ p @ v"
    then obtain u v where uv: "d # s = u @ p @ v" by blast
    show "(\<exists>v. d # s = p @ v) \<or> (\<exists>u v. s = u @ p @ v)"
    proof (cases u)
      case Nil
      then show ?thesis using uv by auto
    next
      case (Cons e u')
      then have "s = u' @ p @ v" using uv by simp
      then show ?thesis by blast
    qed
  next
    assume "(\<exists>v. d # s = p @ v) \<or> (\<exists>u v. s = u @ p @ v)"
    then show "\<exists>u v. d # s = u @ p @ v"
    proof
      assume "\<exists>v. d # s = p @ v"
      then obtain v where "d # s = [] @ p @ v" by auto
      then show ?thesis by blast
    next
      assume "\<exists>u v. s = u @ p @ v"
      then obtain u v where "d # s = (d # u) @ p @ v" by auto
      then show ?thesis by blast
    qed
  qed
  then show ?case using Cons by (simp add: is_prefix_iff del: is_prefix.simps)
qed

lemma str_items_PStr: "str_items (map PStr cats) = Some cats"
  by (induction cats) auto

lemma split_bar_not_Nil: "split_bar s \<noteq> []"
  by (induction s) (auto split: list.splits)

lemma split_bar_no_bar:
  "CHR ''|'' \<notin> set c \<Longrightarrow> split_bar (c @ s) = (c @ hd (split_bar s)) # tl (split_bar s)"
  by (induction c) (auto simp: split_bar_not_Nil split: list.splits)

lemma split_bar_join:
  "cats \<noteq> [] \<Longrightarrow> \<forall>c \<in> set cats. CHR ''|'' \<notin> set c \<Longrightarrow> split_bar (join_with ''|'' cats) = cats"
proof (induction cats)
  case Nil
  then show ?case by simp
next
  case (Cons s cats)
  show ?case
  proof (cases cats)
    case Nil
    then show ?thesis using Cons.prems split_bar_no_bar [of s "[]"] by simp
  next
    case (Cons t ss)
    then have "split_bar (join_with ''|'' (t # ss)) = t # ss"
      using Cons.IH Cons.prems by simp
    then show ?thesis
      using Cons Cons.prems split_bar_no_bar [of s "CHR ''|'' # join_with ''|'' (t # ss)"] by simp
  qed
qed


lemma literal_search_join:
  assumes "\<forall>c \<in> set cats. CHR ''|'' \<notin> set c"
  shows "literal_search (join_with ''|'' cats)
    = Some (\<lambda>s. cats = [] \<or> (\<exists>c \<in> set cats. occurs_in c s))"
proof (cases "cats = []")
  case True
  have "occurs_in [] s" for s by (cases s) auto
  then show ?thesis using True by (simp add: literal_search_def)
next
  case False
  then show ?thesis
    using split_bar_join [OF False assms] by (simp add: literal_search_def list_ex_iff)
qed

lemma filter_classes_literal:
  assumes "filter_classes re_search logger config df = Inr df'"
    and "config ''x_order'' = Some (PList (map PStr cats))"
    and "\<forall>c \<in> set cats. CHR ''|'' \<notin> set c"
    and "re_search (join_with ''|'' cats) = literal_search (join_with ''|'' cats)"
  shows "df' = filter (\<lambda>r. cats = [] \<or> (\<exists>c \<in> set cats. occurs_in c (row_x (snd r)))) df"
proof -
  have "py_join ''|'' (PList (map PStr cats)) = Inr (join_with ''|'' cats)"
    by (simp add: py_join_def str_items_PStr)
  moreover have "re_search (join_with ''|'' cats)
      = Some (\<lambda>s. cats = [] \<or> (\<exists>c \<in> set cats. occurs_in c s))"
    using assms(3,4) literal_search_join by simp
  ultimately show ?thesis
    using assms(1,2) by (auto simp: filter_classes_def split: sum.splits)
qed

text \<open>
  C1, amended. When \<^verbatim>\<open>x_order\<close> is a list of categories without a bar, and the regular
  expression engine reads their joined pattern as the alternation of literal strings it
  is without metacharacters, the returned rows are the input pairs whose \<^verbatim>\<open>y\<close> is present
  and whose \<^verbatim>\<open>x\<close> contains one of the categories; when the list is empty, the pattern is
  the empty string and every pair whose \<^verbatim>\<open>y\<close> is present is returned.
\<close>

theorem x_order_filter:
  assumes "set_edge_properties re_search fromlist xs ys config color size' stroke opacity tooltip
             logger = Inr df"
    and "config ''x_order'' = Some (PList (map PStr cats))"
    and "\<forall>c \<in> set cats. CHR ''|'' \<notin> set c"
    and "re_search (join_with ''|'' cats) = literal_search (join_with ''|'' cats)"
  shows "xy_of df = filter (\<lambda>p. \<not> isna (snd p) \<and> (cats = [] \<or> (\<exists>c \<in> set cats. occurs_in c (fst p))))
                      (zip xs ys)"
proof -
  from set_edge_properties_Inr [OF assms(1)] obtain df0 df1 df2 df3 where
    len: "length xs = length ys"
    and s0: "DataFrame xs ys color size' stroke opacity tooltip = Inr df0"
    and s1: "drop_nan logger df0 = Inr df1"
    and s2: "filter_classes re_search logger config df1 = Inr df2"
    and s3: "color_rows fromlist config color df2 = Inr df3"
    and df: "df = reset_index df3"
    by blast
  have xy1: "xy_of df1 = filter (\<lambda>p. \<not> isna (snd p)) (zip xs ys)"
    using drop_nan_Inr [OF s1] DataFrame_xy [OF s0 len]
      xy_of_filter [of "\<lambda>a b. \<not> isna b" df0] by simp
  have "xy_of df2 = filter (\<lambda>p. cats = [] \<or> (\<exists>c \<in> set cats. occurs_in c (fst p))) (xy_of df1)"
    using filter_classes_literal [OF s2 assms(2,3,4)]
      xy_of_filter [of "\<lambda>a b. cats = [] \<or> (\<exists>c \<in> set cats. occurs_in c a)" df1] by simp
  then show ?thesis
    using df color_rows_xy [OF s3] xy1 by (simp add: reset_index_xy)
qed

theorem x_order_filter_witness:
  "set_edge_properties literal_search (\<lambda>cmap values. values)
      [''cat'', ''dog'', ''a''] [PNum 1, PNum 2, PNone] [''x_order'' \<mapsto> PList (map PStr [''a''])]
      (Scalar (PStr ''#000004'')) (Scalar (PNum 5)) (Scalar (PStr ''#ffffff'')) (Scalar (PNum 0.8))
      (Scalar (PStr [])) (Some Logger)
    = Inr [(0, \<lparr>row_x = ''cat'', row_y = PNum 1, row_color = PStr ''#000004'', row_size = PNum 5,
                row_stroke = PStr ''#ffffff'', row_opacity = PNum 0.8, row_tooltip = PStr []\<rparr>)]
   \<and> xy_of [(0, \<lparr>row_x = ''cat'', row_y = PNum 1, row_color = PStr ''#000004'', row_size = PNum 5,
                row_stroke = PStr ''#ffffff'', row_opacity = PNum 0.8, row_tooltip = PStr []\<rparr>)]
       = filter (\<lambda>p. \<not> isna (snd p) \<and> ([''a''] = [] \<or> (\<exists>c \<in> set [''a'']. occurs_in c (fst p))))
           (zip [''cat'', ''dog'', ''a''] [PNum 1, PNum 2, PNone])"
proof -
  have run: "set_edge_properties literal_search (\<lambda>cmap values. values)
      [''cat'', ''dog'', ''a''] [PNum 1, PNum 2, PNone] [''x_order'' \<mapsto> PList (map PStr [''a''])]
      (Scalar (PStr ''#000004'')) (Scalar (PNum 5)) (Scalar (PStr ''#ffffff'')) (Scalar (PNum 0.8))
      (Scalar (PStr [])) (Some Logger)
    = Inr [(0, \<lparr>row_x = ''cat'', row_y = PNum 1, row_color = PStr ''#000004'', row_size = PNum 5,
                row_stroke = PStr ''#ffffff'', row_opacity = PNum 0.8, row_tooltip = PStr []\<rparr>)]"
    by (simp add: set_edge_properties_def DataFrame_def broadcast_def bind_err_def drop_nan_def
        logger_call_def filter_classes_def color_rows_def reset_index_def py_join_def
        literal_search_def numeral_3_eq_3)
  have xo: "[''x_order'' \<mapsto> PList (map PStr [''a''])] ''x_order'' = Some (PList (map PStr [''a'']))"
    by simp
  have nobar: "\<forall>c \<in> set [''a'']. CHR ''|'' \<notin> set c" by simp
  show ?thesis
    using run x_order_filter [OF run xo nobar refl] by blast
qed

text \<open>
  C1 as stated fails on an empty \<^verbatim>\<open>x_order\<close>: no category occurs in \<^verbatim>\<open>"a"\<close>, and the row is
  kept.
\<close>

theorem x_order_empty_keeps_all:
  "set_edge_properties literal_search (\<lambda>cmap values. values)
      [''a''] [PNum 1] [''x_order'' \<mapsto> PList []]
      (Scalar (PStr ''#000004'')) (Scalar (PNum 5)) (Scalar (PStr ''#ffffff'')) (Scalar (PNum 0.8))
      (Scalar (PStr [])) (Some Logger)
    = Inr [(0, \<lparr>row_x = ''a'', row_y = PNum 1, row_color = PStr ''#000004'', row_size = PNum 5,
                row_stroke = PStr ''#ffffff'', row_opacity = PNum 0.8, row_tooltip = PStr []\<rparr>)]
   \<and> xy_of [(0, \<lparr>row_x = ''a'', row_y = PNum 1, row_color = PStr ''#000004'', row_size = PNum 5,
                row_stroke = PStr ''#ffffff'', row_opacity = PNum 0.8, row_tooltip = PStr []\<rparr>)]
       \<noteq> filter (\<lambda>p. \<not> isna (snd p) \<and> list_ex (\<lambda>c. occurs_in c (fst p)) [])
           (zip [''a''] [PNum 1])"
  by (simp add: set_edge_properties_def DataFrame_def broadcast_def bind_err_def drop_nan_def
        logger_call_def filter_classes_def color_rows_def reset_index_def py_join_def
        literal_search_def xy_of_def)

section \<open>Configuration: properties\<close>

lemma kwargs_get_restrict:
  "k \<in> A \<Longrightarrow> kwargs_get (kwargs |` A) k d = kwargs_get kwargs k d"
  by (simp add: kwargs_get_def)

text \<open>
  C9, amended. \<open>set_config\<close> returns the reference it was given (the shared default
  dictionary when none is given). In that dictionary every recognized option then holds
  the override or the default (\<^verbatim>\<open>chart\<close> always the default, \<^verbatim>\<open>filepath\<close> through \<open>set_path\<close>),
  its other keys are as before, no other dictionary changes, and overrides of unknown
  names make no difference. The dictionary is updated in place.
\<close>

theorem set_config_in_place:
  "(case set_config set_path default_config heap config kwargs of
      (heap', a) \<Rightarrow>
        a = (case config of None \<Rightarrow> default_config | Some a \<Rightarrow> a)
      \<and> heap' = heap(a := heap' a)
      \<and> map (heap' a) recognized
          = [Some (PStr ''violin''),
             Some (kwargs_get kwargs ''title'' (PStr ''Violin - D3blocks'')),
             Some (set_path (kwargs_get kwargs ''filepath'' (PStr ''violin.html''))),
             Some (kwargs_get kwargs ''figsize'' (PList [PNone, PNone])),
             Some (kwargs_get kwargs ''showfig'' (PBool True)),
             Some (kwargs_get kwargs ''overwrite'' (PBool True)),
             Some (kwargs_get kwargs ''bins'' (PNum 20)),
             Some (kwargs_get kwargs ''cmap'' (PStr ''inferno'')),
             Some (kwargs_get kwargs ''ylim'' (PList [PNone, PNone])),
             Some (kwargs_get kwargs ''x_order'' PNone),
             Some (kwargs_get kwargs ''reset_properties'' (PBool True))]
      \<and> heap' a |` (- set recognized) = heap a |` (- set recognized))
   \<and> set_config set_path default_config heap config (kwargs |` set recognized)
      = set_config set_path default_config heap config kwargs"
proof -
  have 1: "snd (set_config set_path default_config heap config kwargs)
      = (case config of None \<Rightarrow> default_config | Some a \<Rightarrow> a)"
    by (simp add: set_config_def Let_def)
  have 2: "fst (set_config set_path default_config heap config kwargs)
      = heap(snd (set_config set_path default_config heap config kwargs)
               := fst (set_config set_path default_config heap config kwargs)
                    (snd (set_config set_path default_config heap config kwargs)))"
    by (simp add: set_config_def Let_def)
  have 3: "map (fst (set_config set_path default_config heap config kwargs)
             (snd (set_config set_path default_config heap config kwargs))) recognized
      = [Some (PStr ''violin''),
         Some (kwargs_get kwargs ''title'' (PStr ''Violin - D3blocks'')),
         Some (set_path (kwargs_get kwargs ''filepath'' (PStr ''violin.html''))),
         Some (kwargs_get kwargs ''figsize'' (PList [PNone, PNone])),
         Some (kwargs_get kwargs ''showfig'' (PBool True)),
         Some (kwargs_get kwargs ''overwrite'' (PBool True)),
         Some (kwargs_get kwargs ''bins'' (PNum 20)),
         Some (kwargs_get kwargs ''cmap'' (PStr ''inferno'')),
         Some (kwargs_get kwargs ''ylim'' (PList [PNone, PNone])),
         Some (kwargs_get kwargs ''x_order'' PNone),
         Some (kwargs_get kwargs ''reset_properties'' (PBool True))]"
    by (simp add: set_config_def Let_def recognized_def)
  have 4: "fst (set_config set_path default_config heap config kwargs)
         (snd (set_config set_path default_config heap config kwargs)) |` (- set recognized)
      = heap (snd (set_config set_path default_config heap config kwargs)) |` (- set recognized)"
    by (simp add: set_config_def Let_def recognized_def restrict_map_def fun_eq_iff)
  have 5: "set_config set_path default_config heap config (kwargs |` set recognized)
      = set_config set_path default_config heap config kwargs"
    by (simp add: set_config_def Let_def recognized_def kwargs_get_restrict)
  show ?thesis using 1 2 3 4 5 by (simp add: case_prod_beta)
qed

text \<open>
  C9 as stated fails: the dictionary of the caller, empty before the call, holds
  \<^verbatim>\<open>chart\<close> after it, so the heap has changed.
\<close>

theorem set_config_mutates_argument:
  "fst (set_config (\<lambda>p. p) 0 (\<lambda>a. Map.empty) (Some 1) Map.empty) 1 ''chart'' = Some (PStr ''violin'')
   \<and> (\<lambda>a. Map.empty :: config) 1 ''chart'' = None
   \<and> fst (set_config (\<lambda>p. p) 0 (\<lambda>a. Map.empty) (Some 1) Map.empty) \<noteq> (\<lambda>a. Map.empty)"
proof -
  have 1: "fst (set_config (\<lambda>p. p) 0 (\<lambda>a. Map.empty) (Some 1) Map.empty) 1 ''chart''
      = Some (PStr ''violin'')"
    by (simp add: set_config_def Let_def)
  then have "fst (set_config (\<lambda>p. p) 0 (\<lambda>a. Map.empty) (Some 1) Map.empty) 1
      \<noteq> (Map.empty :: config)"
    by (metis option.distinct(1))
  then have "fst (set_config (\<lambda>p. p) 0 (\<lambda>a. Map.empty) (Some 1) Map.empty) \<noteq> (\<lambda>a. Map.empty)"
    by metis
  then show ?thesis using 1 by simp
qed

section \<open>Rendering: properties\<close>

lemma andthen_Inr:
  "andthen m f w = (Inr v, w') \<Longrightarrow> \<exists>u w1. m w = (Inr u, w1) \<and> f u w1 = (Inr v, w')"
  by (auto simp: andthen_def split: prod.splits sum.splits)

lemma lift_Inr: "lift r w = (Inr v, w') \<Longrightarrow> r = Inr v \<and> w' = w"
  by (simp add: lift_def)

lemma config_get_Inr: "config_get c k w = (Inr v, w') \<Longrightarrow> configs w c k = Some v \<and> w' = w"
  by (auto simp: config_get_def split: option.splits)

lemma config_set_Inr:
  "config_set c k v w = (r, w') \<Longrightarrow> w' = w\<lparr>configs := (configs w)(c := (configs w c)(k \<mapsto> v))\<rparr>"
  by (auto simp: config_set_def)

lemma sets_key_refl: "sets_key c k w w"
  by (simp add: sets_key_def)

lemma sets_key_config_set: "config_set c k v w = (r, w') \<Longrightarrow> sets_key c k w w'"
  by (auto simp: config_set_def sets_key_def)

lemma sets_key_other: "sets_key c k w w' \<Longrightarrow> k' \<noteq> k \<Longrightarrow> configs w' c k' = configs w c k'"
  by (metis (no_types, lifting) fun_upd_other fun_upd_same sets_key_def)

lemma ylim_step_sets: "ylim_step arith c a w = (Inr u, w') \<Longrightarrow> sets_key c ''ylim'' w w'"
  unfolding ylim_step_def
  by (auto dest!: andthen_Inr lift_Inr config_get_Inr split: if_splits
      intro: sets_key_refl sets_key_config_set)

lemma x_order_step_sets: "x_order_step c np w = (Inr u, w') \<Longrightarrow> sets_key c ''x_order'' w w'"
  unfolding x_order_step_def
  by (auto dest!: andthen_Inr lift_Inr config_get_Inr split: if_splits
      intro: sets_key_refl sets_key_config_set)

lemma figsize_step_sets: "figsize_step c i v w = (Inr u, w') \<Longrightarrow> sets_key c ''figsize'' w w'"
  unfolding figsize_step_def
  by (auto dest!: andthen_Inr lift_Inr config_get_Inr split: if_splits
      intro: sets_key_refl sets_key_config_set)


lemma sets_key_frames: "sets_key c k w w' \<Longrightarrow> frames w' = frames w"
  by (simp add: sets_key_def)

lemma tooltip_step_off:
  assumes "list_all (\<lambda>t. t = PStr []) (map (\<lambda>r. row_tooltip (snd r)) (frames w a))
     \<or> list_all isna (map (\<lambda>r. row_tooltip (snd r)) (frames w a))"
  shows "tooltip_step c a w
    = (Inr (), w\<lparr>configs := (configs w)(c := (configs w c)(''mouseover'' \<mapsto> PStr [],
         ''mousemove'' \<mapsto> PStr [], ''mouseleave'' \<mapsto> PStr []))\<rparr>)"
  using assms by (simp add: tooltip_step_def andthen_def config_set_def)

lemma tooltip_step_on:
  assumes "\<not> (list_all (\<lambda>t. t = PStr []) (map (\<lambda>r. row_tooltip (snd r)) (frames w a))
     \<or> list_all isna (map (\<lambda>r. row_tooltip (snd r)) (frames w a)))"
  shows "tooltip_step c a w
    = (Inr (), w\<lparr>configs := (configs w)(c := (configs w c)(''mouseover'' \<mapsto> PStr mouseover_snippet,
         ''mousemove'' \<mapsto> PStr mousemove_snippet, ''mouseleave'' \<mapsto> PStr mouseleave_snippet))\<rparr>)"
  using assms by (simp add: tooltip_step_def andthen_def config_set_def)

lemma tooltip_step_frames:
  assumes "tooltip_step c a w = (r, w')"
  shows "frames w' = frames w"
proof (cases "list_all (\<lambda>t. t = PStr []) (map (\<lambda>r. row_tooltip (snd r)) (frames w a))
     \<or> list_all isna (map (\<lambda>r. row_tooltip (snd r)) (frames w a))")
  case True
  show ?thesis using assms unfolding tooltip_step_off [OF True] by auto
next
  case False
  show ?thesis using assms unfolding tooltip_step_on [OF False] by auto
qed

lemma tooltip_step_other:
  assumes "tooltip_step c a w = (r, w')"
    and "k \<noteq> ''mouseover''" "k \<noteq> ''mousemove''" "k \<noteq> ''mouseleave''"
  shows "configs w' c k = configs w c k"
proof (cases "list_all (\<lambda>t. t = PStr []) (map (\<lambda>r. row_tooltip (snd r)) (frames w a))
     \<or> list_all isna (map (\<lambda>r. row_tooltip (snd r)) (frames w a))")
  case True
  show ?thesis using assms unfolding tooltip_step_off [OF True] by auto
next
  case False
  show ?thesis using assms unfolding tooltip_step_on [OF False] by auto
qed

lemma get_data_ready_for_d3_world:
  "get_data_ready_for_d3 to_str to_json a w = (r, w') \<Longrightarrow>
     configs w' = configs w \<and> files w' = files w
   \<and> frames w' = (frames w)(a := astype_str to_str (frames w a))"
  by (auto simp: get_data_ready_for_d3_def Let_def)

lemma write_html_world:
  "write_html render X c logger w = (r, w') \<Longrightarrow> configs w' = configs w \<and> frames w' = frames w"
  by (auto simp: write_html_def Let_def split: sum.splits option.splits pyval.splits)

lemma show_Inr:
  assumes "show arith to_dict to_frame to_str to_json render df config node_properties logger w
             = (Inr c', w')"
  obtains a w1 w2 w3 w4 w5 w6 w7 X where
    "config = Some c'"
    "to_frame df w = (a, w1)"
    "ylim_step arith c' a w1 = (Inr (), w2)"
    "x_order_step c' (to_dict node_properties) w2 = (Inr (), w3)"
    "figsize_step c' 0 (PNum (real (length (to_dict node_properties) * 95))) w3 = (Inr (), w4)"
    "figsize_step c' 1 (PNum 400) w4 = (Inr (), w5)"
    "tooltip_step c' a w5 = (Inr (), w6)"
    "get_data_ready_for_d3 to_str to_json a w6 = (Inr X, w7)"
    "write_html render X c' logger w7 = (Inr (), w')"
proof -
  obtain a w1 where tf: "to_frame df w = (a, w1)" by (cases "to_frame df w")
  from assms tf obtain c where c: "config = Some c"
    by (cases config) (auto simp: show_def Let_def)
  from assms tf c have run:
    "andthen (ylim_step arith c a) (\<lambda>_.
     andthen (x_order_step c (to_dict node_properties)) (\<lambda>_.
     andthen (figsize_step c 0 (PNum (real (length (to_dict node_properties) * 95)))) (\<lambda>_.
     andthen (figsize_step c 1 (PNum 400)) (\<lambda>_.
     andthen (tooltip_step c a) (\<lambda>_.
     andthen (get_data_ready_for_d3 to_str to_json a) (\<lambda>X.
     andthen (write_html render X c logger) (\<lambda>_.
     lift (Inr c)))))))) w1 = (Inr c', w')"
    by (simp add: show_def Let_def)
  from andthen_Inr [OF run] obtain w2 where
    s1: "ylim_step arith c a w1 = (Inr (), w2)" and run2:
    "andthen (x_order_step c (to_dict node_properties)) (\<lambda>_.
     andthen (figsize_step c 0 (PNum (real (length (to_dict node_properties) * 95)))) (\<lambda>_.
     andthen (figsize_step c 1 (PNum 400)) (\<lambda>_.
     andthen (tooltip_step c a) (\<lambda>_.
     andthen (get_data_ready_for_d3 to_str to_json a) (\<lambda>X.
     andthen (write_html render X c logger) (\<lambda>_.
     lift (Inr c))))))) w2 = (Inr c', w')"
    by auto
  from andthen_Inr [OF run2] obtain w3 where
    s2: "x_order_step c (to_dict node_properties) w2 = (Inr (), w3)" and run3:
    "andthen (figsize_step c 0 (PNum (real (length (to_dict node_properties) * 95)))) (\<lambda>_.
     andthen (figsize_step c 1 (PNum 400)) (\<lambda>_.
     andthen (tooltip_step c a) (\<lambda>_.
     andthen (get_data_ready_for_d3 to_str to_json a) (\<lambda>X.
     andthen (write_html render X c logger) (\<lambda>_.
     lift (Inr c)))))) w3 = (Inr c', w')"
    by auto
  from andthen_Inr [OF run3] obtain w4 where
    s3: "figsize_step c 0 (PNum (real (length (to_dict node_properties) * 95))) w3 = (Inr (), w4)"
    and run4:
    "andthen (figsize_step c 1 (PNum 400)) (\<lambda>_.
     andthen (tooltip_step c a) (\<lambda>_.
     andthen (get_data_ready_for_d3 to_str to_json a) (\<lambda>X.
     andthen (write_html render X c logger) (\<lambda>_.
     lift (Inr c))))) w4 = (Inr c', w')"
    by auto
  from andthen_Inr [OF run4] obtain w5 where
    s4: "figsize_step c 1 (PNum 400) w4 = (Inr (), w5)" and run5:
    "andthen (tooltip_step c a) (\<lambda>_.
     andthen (get_data_ready_for_d3 to_str to_json a) (\<lambda>X.
     andthen (write_html render X c logger) (\<lambda>_.
     lift (Inr c)))) w5 = (Inr c', w')"
    by auto
  from andthen_Inr [OF run5] obtain w6 where
    s5: "tooltip_step c a w5 = (Inr (), w6)" and run6:
    "andthen (get_data_ready_for_d3 to_str to_json a) (\<lambda>X.
     andthen (write_html render X c logger) (\<lambda>_.
     lift (Inr c))) w6 = (Inr c', w')"
    by auto
  from andthen_Inr [OF run6] obtain X w7 where
    s6: "get_data_ready_for_d3 to_str to_json a w6 = (Inr X, w7)" and run7:
    "andthen (write_html render X c logger) (\<lambda>_. lift (Inr c)) w7 = (Inr c', w')"
    by auto
  from andthen_Inr [OF run7] obtain w8 where
    s7: "write_html render X c logger w7 = (Inr (), w8)" and "lift (Inr c) w8 = (Inr c', w')"
    by auto
  then have "c' = c" "w8 = w'" by (auto dest: lift_Inr)
  then show ?thesis using that c tf s1 s2 s3 s4 s5 s6 s7 by blast
qed

lemmas show_defs = show_def Let_def andthen_def lift_def ylim_step_def config_get_def config_set_def
  py_len_def y_limits_def exact_arith_def exact_def of_float_def spacing_def x_order_step_def
  figsize_step_def py_index_def py_setitem_def tooltip_step_def get_data_ready_for_d3_def
  write_html_def content_def bind_err_def example_config_def example_row_def example_world_def

lemma series_max_Max: "rs \<noteq> [] \<Longrightarrow> series_max rs = Some (Max (set rs))"
proof (cases rs)
  case Nil
  assume "rs \<noteq> []"
  with Nil show ?thesis by simp
next
  case (Cons r rs')
  then show ?thesis using Max.set_eq_fold [of r rs'] by simp
qed

lemma series_min_Min: "rs \<noteq> [] \<Longrightarrow> series_min rs = Some (Min (set rs))"
proof (cases rs)
  case Nil
  assume "rs \<noteq> []"
  with Nil show ?thesis by simp
next
  case (Cons r rs')
  then show ?thesis using Min.set_eq_fold [of r rs'] by simp
qed

lemma ylim_step_auto:
  assumes "ylim_step arith c a w = (Inr u, w')"
    and "configs w c ''ylim'' = Some ylim"
    and "ylim = PList [PNone, PNone] \<or> py_len ylim = Inr 0"
  shows "\<exists>lim. y_limits arith (map (\<lambda>r. row_y (snd r)) (frames w a)) = Inr lim
     \<and> configs w' c ''ylim'' = Some lim"
proof -
  have auto_limits: "(if ylim = PList [PNone, PNone] then lift (Inr True)
       else andthen (lift (py_len ylim)) (\<lambda>n. lift (Inr (n = 0)))) w = (Inr True, w)"
    using assms(3) by (auto simp: lift_def andthen_def)
  have "andthen (lift (y_limits arith (map (\<lambda>r. row_y (snd r)) (frames w a))))
          (\<lambda>lim. config_set c ''ylim'' lim) w = (Inr u, w')"
    using assms(1,2) auto_limits
    by (simp add: ylim_step_def andthen_def config_get_def)
  then obtain lim where "y_limits arith (map (\<lambda>r. row_y (snd r)) (frames w a)) = Inr lim"
    and "config_set c ''ylim'' lim w = (Inr u, w')"
    by (auto dest!: andthen_Inr lift_Inr)
  then show ?thesis by (auto simp: config_set_def)
qed

lemma show_tail_config:
  assumes "tooltip_step c a w5 = (r6, w6)"
    and "get_data_ready_for_d3 to_str to_json a w6 = (r7, w7)"
    and "write_html render X c logger w7 = (r8, w')"
    and "k \<noteq> ''mouseover''" "k \<noteq> ''mousemove''" "k \<noteq> ''mouseleave''"
  shows "configs w' c k = configs w5 c k"
  using tooltip_step_other [OF assms(1,4,5,6)] get_data_ready_for_d3_world [OF assms(2)]
    write_html_world [OF assms(3)] by simp

text \<open>
  C5. When \<^verbatim>\<open>ylim\<close> is \<^verbatim>\<open>[None, None]\<close> or empty and \<open>show\<close> returns, the configuration holds
  \<^verbatim>\<open>ylim = [min(y) - y_spacing, max(y) + y_spacing]\<close> with
  \<^verbatim>\<open>y_spacing = (max(y) - min(y)) * 0.10\<close>, where the maximum and the minimum are those of
  the numbers of the column (NaN when there is none) and the four operations are those of
  numpy, whatever they give. On the \<^verbatim>\<open>y\<close> values 0 and 10 this is \<^verbatim>\<open>[-1, 11]\<close>, given that
  the four operations are exact on 10 - 0, 10 * 0.10, 0 - 1 and 10 + 1, as they are in
  int64 and in float64.
\<close>

theorem show_ylim:
  assumes "show arith to_dict to_frame to_str to_json render df config node_properties logger w
             = (Inr c, w')"
    and "to_frame df w = (a, w1)"
    and "configs w1 c ''ylim'' = Some ylim"
    and "ylim = PList [PNone, PNone] \<or> py_len ylim = Inr 0"
  shows "(\<exists>rs. series_numbers (map (\<lambda>r. row_y (snd r)) (frames w1 a)) = Some rs
     \<and> configs w' c ''ylim''
         = Some (PList
             [float_sub arith (of_float (series_min rs))
                (float_mul arith
                   (col_sub arith (of_float (series_max rs)) (of_float (series_min rs)))
                   (PNum 0.10)),
              float_add arith (of_float (series_max rs))
                (float_mul arith
                   (col_sub arith (of_float (series_max rs)) (of_float (series_min rs)))
                   (PNum 0.10))])
     \<and> (rs \<noteq> [] \<longrightarrow> configs w' c ''ylim''
         = Some (PList
             [float_sub arith (PNum (Min (set rs)))
                (float_mul arith
                   (col_sub arith (PNum (Max (set rs))) (PNum (Min (set rs)))) (PNum 0.10)),
              float_add arith (PNum (Max (set rs)))
                (float_mul arith
                   (col_sub arith (PNum (Max (set rs))) (PNum (Min (set rs)))) (PNum 0.10))])))
     \<and> (map (\<lambda>r. row_y (snd r)) (frames w1 a) = [PNum 0, PNum 10]
          \<and> col_sub arith (PNum 10) (PNum 0) = PNum 10
          \<and> float_mul arith (PNum 10) (PNum 0.10) = PNum 1
          \<and> float_sub arith (PNum 0) (PNum 1) = PNum (- 1)
          \<and> float_add arith (PNum 10) (PNum 1) = PNum 11
        \<longrightarrow> configs w' c ''ylim'' = Some (PList [PNum (- 1), PNum 11]))"
proof -
  from assms(1) obtain a' w1' w2 w3 w4 w5 w6 w7 X where
    tf: "to_frame df w = (a', w1')"
    and s1: "ylim_step arith c a' w1' = (Inr (), w2)"
    and s2: "x_order_step c (to_dict node_properties) w2 = (Inr (), w3)"
    and s3: "figsize_step c 0 (PNum (real (length (to_dict node_properties) * 95))) w3 = (Inr (), w4)"
    and s4: "figsize_step c 1 (PNum 400) w4 = (Inr (), w5)"
    and s5: "tooltip_step c a' w5 = (Inr (), w6)"
    and s6: "get_data_ready_for_d3 to_str to_json a' w6 = (Inr X, w7)"
    and s7: "write_html render X c logger w7 = (Inr (), w')"
    by (rule show_Inr)
  have [simp]: "a' = a" "w1' = w1" using tf assms(2) by simp_all
  from ylim_step_auto [OF s1] assms(3,4) obtain lim where
    lim: "y_limits arith (map (\<lambda>r. row_y (snd r)) (frames w1 a)) = Inr lim"
    and c2: "configs w2 c ''ylim'' = Some lim"
    by auto
  have "configs w' c ''ylim'' = configs w5 c ''ylim''"
    using show_tail_config [OF s5 s6 s7] by simp
  also have "\<dots> = configs w4 c ''ylim''"
    using sets_key_other [OF figsize_step_sets [OF s4]] by simp
  also have "\<dots> = configs w3 c ''ylim''"
    using sets_key_other [OF figsize_step_sets [OF s3]] by simp
  also have "\<dots> = configs w2 c ''ylim''"
    using sets_key_other [OF x_order_step_sets [OF s2]] by simp
  finally have final: "configs w' c ''ylim'' = Some lim" using c2 by simp
  from lim obtain rs where
    rs: "series_numbers (map (\<lambda>r. row_y (snd r)) (frames w1 a)) = Some rs"
    and lim_eq: "lim = PList
             [float_sub arith (of_float (series_min rs))
                (float_mul arith
                   (col_sub arith (of_float (series_max rs)) (of_float (series_min rs)))
                   (PNum 0.10)),
              float_add arith (of_float (series_max rs))
                (float_mul arith
                   (col_sub arith (of_float (series_max rs)) (of_float (series_min rs)))
                   (PNum 0.10))]"
    by (auto simp: y_limits_def Let_def spacing_def split: option.splits)
  have general: "configs w' c ''ylim''
         = Some (PList
             [float_sub arith (of_float (series_min rs))
                (float_mul arith
                   (col_sub arith (of_float (series_max rs)) (of_float (series_min rs)))
                   (PNum 0.10)),
              float_add arith (of_float (series_max rs))
                (float_mul arith
                   (col_sub arith (of_float (series_max rs)) (of_float (series_min rs)))
                   (PNum 0.10))])"
    by (simp only: final lim_eq)
  have ends: "of_float (series_max rs) = PNum (Max (set rs))"
    "of_float (series_min rs) = PNum (Min (set rs))" if "rs \<noteq> []"
    using that by (simp_all add: series_max_Max series_min_Min of_float_def)
  have nonempty: "rs \<noteq> [] \<longrightarrow> configs w' c ''ylim''
         = Some (PList
             [float_sub arith (PNum (Min (set rs)))
                (float_mul arith
                   (col_sub arith (PNum (Max (set rs))) (PNum (Min (set rs)))) (PNum 0.10)),
              float_add arith (PNum (Max (set rs)))
                (float_mul arith
                   (col_sub arith (PNum (Max (set rs))) (PNum (Min (set rs)))) (PNum 0.10))])"
    using general ends by (simp only:) simp
  have first: "\<exists>rs. series_numbers (map (\<lambda>r. row_y (snd r)) (frames w1 a)) = Some rs
     \<and> configs w' c ''ylim''
         = Some (PList
             [float_sub arith (of_float (series_min rs))
                (float_mul arith
                   (col_sub arith (of_float (series_max rs)) (of_float (series_min rs)))
                   (PNum 0.10)),
              float_add arith (of_float (series_max rs))
                (float_mul arith
                   (col_sub arith (of_float (series_max rs)) (of_float (series_min rs)))
                   (PNum 0.10))])
     \<and> (rs \<noteq> [] \<longrightarrow> configs w' c ''ylim''
         = Some (PList
             [float_sub arith (PNum (Min (set rs)))
                (float_mul arith
                   (col_sub arith (PNum (Max (set rs))) (PNum (Min (set rs)))) (PNum 0.10)),
              float_add arith (PNum (Max (set rs)))
                (float_mul arith
                   (col_sub arith (PNum (Max (set rs))) (PNum (Min (set rs)))) (PNum 0.10))]))"
    using rs general nonempty by (intro exI [of _ rs] conjI)
  have second: "configs w' c ''ylim'' = Some (PList [PNum (- 1), PNum 11])"
    if ys: "map (\<lambda>r. row_y (snd r)) (frames w1 a) = [PNum 0, PNum 10]"
      and ops: "col_sub arith (PNum 10) (PNum 0) = PNum 10"
        "float_mul arith (PNum 10) (PNum 0.10) = PNum 1"
        "float_sub arith (PNum 0) (PNum 1) = PNum (- 1)"
        "float_add arith (PNum 10) (PNum 1) = PNum 11"
  proof -
    have "rs = [0, 10]" using rs unfolding ys by simp
    then have "Max (set rs) = 10" "Min (set rs) = 0" "rs \<noteq> []" by simp_all
    then show ?thesis using nonempty ops by simp
  qed
  have third: "map (\<lambda>r. row_y (snd r)) (frames w1 a) = [PNum 0, PNum 10]
          \<and> col_sub arith (PNum 10) (PNum 0) = PNum 10
          \<and> float_mul arith (PNum 10) (PNum 0.10) = PNum 1
          \<and> float_sub arith (PNum 0) (PNum 1) = PNum (- 1)
          \<and> float_add arith (PNum 10) (PNum 1) = PNum 11
        \<longrightarrow> configs w' c ''ylim'' = Some (PList [PNum (- 1), PNum 11])"
    by (intro impI; elim conjE; rule second; assumption)
  from first third show ?thesis by (rule conjI)
qed

lemma example_show_returns:
  "fst (show exact_arith (\<lambda>n. n) Pair example_str (\<lambda>rows. ''[]'') (\<lambda>subst. ''<html>'') 0 (Some 0)
     example_nodes None (example_world (example_frame t u))) = Inr 0"
  by (simp add: show_defs example_nodes_def example_frame_def)

theorem show_ylim_witness:
  "fst (show exact_arith (\<lambda>n. n) Pair example_str (\<lambda>rows. ''[]'') (\<lambda>subst. ''<html>'') 0 (Some 0)
     example_nodes None (example_world (example_frame (PStr []) (PStr [])))) = Inr 0
   \<and> map (\<lambda>r. row_y (snd r)) (example_frame (PStr []) (PStr [])) = [PNum 0, PNum 10]
   \<and> configs (example_world (example_frame (PStr []) (PStr []))) 0 ''ylim'' = Some (PList [PNone, PNone])
   \<and> col_sub exact_arith (PNum 10) (PNum 0) = PNum 10
   \<and> float_mul exact_arith (PNum 10) (PNum 0.10) = PNum 1
   \<and> float_sub exact_arith (PNum 0) (PNum 1) = PNum (- 1)
   \<and> float_add exact_arith (PNum 10) (PNum 1) = PNum 11
   \<and> configs (snd (show exact_arith (\<lambda>n. n) Pair example_str (\<lambda>rows. ''[]'') (\<lambda>subst. ''<html>'') 0
       (Some 0) example_nodes None (example_world (example_frame (PStr []) (PStr []))))) 0 ''ylim''
     = Some (PList [PNum (- 1), PNum 11])"
proof -
  let ?w = "example_world (example_frame (PStr []) (PStr []))"
  let ?run = "show exact_arith (\<lambda>n. n) Pair example_str (\<lambda>rows. ''[]'') (\<lambda>subst. ''<html>'') 0 (Some 0)
     example_nodes None ?w"
  have ret: "fst ?run = Inr 0" by (rule example_show_returns)
  then have run: "?run = (Inr 0, snd ?run)" by (metis prod.collapse)
  have tf: "Pair 0 ?w = (0, ?w)" by simp
  have ys: "map (\<lambda>r. row_y (snd r)) (frames ?w 0) = [PNum 0, PNum 10]"
    by (simp add: example_world_def example_frame_def example_row_def)
  have yl: "configs ?w 0 ''ylim'' = Some (PList [PNone, PNone])"
    by (simp add: example_world_def example_config_def)
  have ops: "col_sub exact_arith (PNum 10) (PNum 0) = PNum 10"
    "float_mul exact_arith (PNum 10) (PNum 0.10) = PNum 1"
    "float_sub exact_arith (PNum 0) (PNum 1) = PNum (- 1)"
    "float_add exact_arith (PNum 10) (PNum 1) = PNum 11"
    by (simp_all add: exact_arith_def exact_def)
  have "configs (snd ?run) 0 ''ylim'' = Some (PList [PNum (- 1), PNum 11])"
    using show_ylim [OF run tf yl] ys ops by blast
  then show ?thesis using ret ys yl ops by (simp add: example_world_def)
qed






text \<open>
  The three bindings are empty when all tooltips are the empty string, or all are
  missing, and the event bindings otherwise.
\<close>

lemma show_mouse_bindings:
  assumes "show arith to_dict to_frame to_str to_json render df config node_properties logger w
             = (Inr c, w')"
    and "to_frame df w = (a, w1)"
  shows "map (configs w' c) [''mouseover'', ''mousemove'', ''mouseleave'']
     = (if list_all (\<lambda>t. t = PStr []) (map (\<lambda>r. row_tooltip (snd r)) (frames w1 a))
           \<or> list_all isna (map (\<lambda>r. row_tooltip (snd r)) (frames w1 a))
        then [Some (PStr []), Some (PStr []), Some (PStr [])]
        else [Some (PStr mouseover_snippet), Some (PStr mousemove_snippet),
              Some (PStr mouseleave_snippet)])"
proof -
  from assms(1) obtain a' w1' w2 w3 w4 w5 w6 w7 X where
    tf: "to_frame df w = (a', w1')"
    and s1: "ylim_step arith c a' w1' = (Inr (), w2)"
    and s2: "x_order_step c (to_dict node_properties) w2 = (Inr (), w3)"
    and s3: "figsize_step c 0 (PNum (real (length (to_dict node_properties) * 95))) w3 = (Inr (), w4)"
    and s4: "figsize_step c 1 (PNum 400) w4 = (Inr (), w5)"
    and s5: "tooltip_step c a' w5 = (Inr (), w6)"
    and s6: "get_data_ready_for_d3 to_str to_json a' w6 = (Inr X, w7)"
    and s7: "write_html render X c logger w7 = (Inr (), w')"
    by (rule show_Inr)
  have [simp]: "a' = a" "w1' = w1" using tf assms(2) by simp_all
  have fr: "frames w5 = frames w1"
    using sets_key_frames [OF ylim_step_sets [OF s1]]
      sets_key_frames [OF x_order_step_sets [OF s2]]
      sets_key_frames [OF figsize_step_sets [OF s3]]
      sets_key_frames [OF figsize_step_sets [OF s4]] by simp
  have cf: "configs w' = configs w6"
    using get_data_ready_for_d3_world [OF s6] write_html_world [OF s7] by simp
  show ?thesis
  proof (cases "list_all (\<lambda>t. t = PStr []) (map (\<lambda>r. row_tooltip (snd r)) (frames w5 a))
           \<or> list_all isna (map (\<lambda>r. row_tooltip (snd r)) (frames w5 a))")
    case True
    have "w6 = w5\<lparr>configs := (configs w5)(c := (configs w5 c)(''mouseover'' \<mapsto> PStr [],
         ''mousemove'' \<mapsto> PStr [], ''mouseleave'' \<mapsto> PStr []))\<rparr>"
      using s5 tooltip_step_off [OF True, of c] by simp
    then show ?thesis using True cf fr by simp
  next
    case False
    have "w6 = w5\<lparr>configs := (configs w5)(c := (configs w5 c)(''mouseover'' \<mapsto> PStr mouseover_snippet,
         ''mousemove'' \<mapsto> PStr mousemove_snippet, ''mouseleave'' \<mapsto> PStr mouseleave_snippet))\<rparr>"
      using s5 tooltip_step_on [OF False, of c] by simp
    then show ?thesis using False cf fr by simp
  qed
qed

text \<open>
  C6. A table whose tooltips are one empty string and one \<^verbatim>\<open>None\<close> has only empty or
  missing tooltips, yet the test of line 164 (all empty, or all missing) fails and the
  three bindings are set.
\<close>

theorem show_mixed_empty_tooltips:
  "fst (show exact_arith (\<lambda>n. n) Pair example_str (\<lambda>rows. ''[]'') (\<lambda>subst. ''<html>'') 0 (Some 0)
     example_nodes None (example_world (example_frame (PStr []) PNone))) = Inr 0
   \<and> map (\<lambda>r. row_tooltip (snd r)) (example_frame (PStr []) PNone) = [PStr [], PNone]
   \<and> map (configs (snd (show exact_arith (\<lambda>n. n) Pair example_str (\<lambda>rows. ''[]'') (\<lambda>subst. ''<html>'') 0
        (Some 0) example_nodes None (example_world (example_frame (PStr []) PNone)))) 0)
       [''mouseover'', ''mousemove'', ''mouseleave'']
     = [Some (PStr mouseover_snippet), Some (PStr mousemove_snippet),
        Some (PStr mouseleave_snippet)]"
  by (simp add: show_defs example_nodes_def example_frame_def)

text \<open>
  C10. When the renderer works on the table of the caller (\<open>to_frame\<close> gives back its
  address and leaves the world as it is) and returns, the \<^verbatim>\<open>y\<close> column of that table holds
  the strings of the values it held, the other columns are as before; the same after a
  direct call of \<open>get_data_ready_for_d3\<close>.
\<close>

theorem show_converts_y:
  assumes "show arith to_dict to_frame to_str to_json render df config node_properties logger w
             = (Inr c, w')"
    and "to_frame df w = (a, w)"
  shows "frames w' a = astype_str to_str (frames w a)
     \<and> map (\<lambda>r. row_y (snd r)) (frames w' a)
         = map (\<lambda>r. PStr (to_str (row_y (snd r)))) (frames w a)
     \<and> frames (snd (get_data_ready_for_d3 to_str to_json a w)) a = astype_str to_str (frames w a)"
proof -
  from assms(1) obtain a' w1' w2 w3 w4 w5 w6 w7 X where
    tf: "to_frame df w = (a', w1')"
    and s1: "ylim_step arith c a' w1' = (Inr (), w2)"
    and s2: "x_order_step c (to_dict node_properties) w2 = (Inr (), w3)"
    and s3: "figsize_step c 0 (PNum (real (length (to_dict node_properties) * 95))) w3 = (Inr (), w4)"
    and s4: "figsize_step c 1 (PNum 400) w4 = (Inr (), w5)"
    and s5: "tooltip_step c a' w5 = (Inr (), w6)"
    and s6: "get_data_ready_for_d3 to_str to_json a' w6 = (Inr X, w7)"
    and s7: "write_html render X c logger w7 = (Inr (), w')"
    by (rule show_Inr)
  have [simp]: "a' = a" "w1' = w" using tf assms(2) by simp_all
  have fr: "frames w6 = frames w"
    using sets_key_frames [OF ylim_step_sets [OF s1]]
      sets_key_frames [OF x_order_step_sets [OF s2]]
      sets_key_frames [OF figsize_step_sets [OF s3]]
      sets_key_frames [OF figsize_step_sets [OF s4]]
      tooltip_step_frames [OF s5] by simp
  have 1: "frames w' a = astype_str to_str (frames w a)"
    using get_data_ready_for_d3_world [OF s6] write_html_world [OF s7] fr by simp
  have 2: "map (\<lambda>r. row_y (snd r)) (astype_str to_str (frames w a))
      = map (\<lambda>r. PStr (to_str (row_y (snd r)))) (frames w a)"
    by (simp add: astype_str_def)
  have 3: "frames (snd (get_data_ready_for_d3 to_str to_json a w)) a = astype_str to_str (frames w a)"
    by (simp add: get_data_ready_for_d3_def Let_def)
  show ?thesis using 1 2 3 by simp
qed

theorem show_converts_y_witness:
  "fst (show exact_arith (\<lambda>n. n) Pair example_str (\<lambda>rows. ''[]'') (\<lambda>subst. ''<html>'') 0 (Some 0)
     example_nodes None (example_world (example_frame (PStr []) (PStr [])))) = Inr 0
   \<and> map (\<lambda>r. row_y (snd r)) (frames (example_world (example_frame (PStr []) (PStr []))) 0)
       = [PNum 0, PNum 10]
   \<and> map (\<lambda>r. row_y (snd r))
       (frames (snd (show exact_arith (\<lambda>n. n) Pair example_str (\<lambda>rows. ''[]'') (\<lambda>subst. ''<html>'') 0 (Some 0)
          example_nodes None (example_world (example_frame (PStr []) (PStr []))))) 0)
       = [PStr ''0.0'', PStr ''10.0'']"
proof -
  let ?w = "example_world (example_frame (PStr []) (PStr []))"
  let ?run = "show exact_arith (\<lambda>n. n) Pair example_str (\<lambda>rows. ''[]'') (\<lambda>subst. ''<html>'') 0 (Some 0)
     example_nodes None ?w"
  have ret: "fst ?run = Inr 0" by (rule example_show_returns)
  then have run: "?run = (Inr 0, snd ?run)" by (metis prod.collapse)
  have tf: "Pair 0 ?w = (0, ?w)" by simp
  have ys: "map (\<lambda>r. row_y (snd r)) (frames ?w 0) = [PNum 0, PNum 10]"
    by (simp add: example_world_def example_frame_def example_row_def)
  have "map (\<lambda>r. row_y (snd r)) (frames (snd ?run) 0)
      = map (\<lambda>r. PStr (example_str (row_y (snd r)))) (frames ?w 0)"
    using show_converts_y [OF run tf] by blast
  also have "\<dots> = [PStr ''0.0'', PStr ''10.0'']"
    by (simp add: example_world_def example_frame_def example_row_def example_str_def)
  finally show ?thesis using ret ys by simp
qed

end
